theory Spec2Isabelle
  imports Complex_Main
begin

section \<open>A feedforward network with sigmoid units (nn.py)\<close>

text \<open>
  The program works on numpy arrays of float64. Here an array is a two-dimensional matrix
  that carries its shape. Exceptions are values of the type \<open>error\<close>; a function that can
  raise returns \<open>error + 'a\<close>, with \<open>Inl\<close> for the exception. What the object holds after an
  exception is not kept, and running out of memory is not represented.
\<close>

subsection \<open>Exceptions\<close>

datatype error = ValueError | IndexError | ZeroDivisionError

subsection \<open>Floating-point numbers\<close>

text \<open>
  A float64 is a finite number, an infinity or nan. The operations treat the special values
  as IEEE 754 and numpy do: nan spreads, \<open>inf - inf\<close>, \<open>0 * inf\<close>, \<open>inf / inf\<close> and \<open>0 / 0\<close> are
  nan, a nonzero number over zero is an infinity, every comparison with nan is false. With
  numpy's default error settings none of them raises (they warn). On finite numbers the
  operations are the exact ones of the reals: rounding, and the overflow of a finite result
  to an infinity, are not represented. The two zeros are one; the only zero divisor that
  the program can meet is the \<open>+0.0\<close> of an empty batch.
\<close>

datatype float64 = Fin real | PosInf | NegInf | NaN

fun fneg :: "float64 \<Rightarrow> float64" where
  "fneg (Fin x) = Fin (- x)"
| "fneg PosInf = NegInf"
| "fneg NegInf = PosInf"
| "fneg NaN = NaN"

fun fadd :: "float64 \<Rightarrow> float64 \<Rightarrow> float64" where
  "fadd (Fin x) (Fin y) = Fin (x + y)"
| "fadd (Fin x) PosInf = PosInf"
| "fadd (Fin x) NegInf = NegInf"
| "fadd PosInf (Fin y) = PosInf"
| "fadd PosInf PosInf = PosInf"
| "fadd PosInf NegInf = NaN"
| "fadd NegInf (Fin y) = NegInf"
| "fadd NegInf PosInf = NaN"
| "fadd NegInf NegInf = NegInf"
| "fadd NaN y = NaN"
| "fadd x NaN = NaN"

definition fsub :: "float64 \<Rightarrow> float64 \<Rightarrow> float64" where
  "fsub x y = fadd x (fneg y)"

text \<open>An infinity with the sign of a finite number, nan for zero.\<close>

definition signed_inf :: "real \<Rightarrow> float64" where
  "signed_inf x = (if x = 0 then NaN else if 0 < x then PosInf else NegInf)"

fun fmul :: "float64 \<Rightarrow> float64 \<Rightarrow> float64" where
  "fmul (Fin x) (Fin y) = Fin (x * y)"
| "fmul (Fin x) PosInf = signed_inf x"
| "fmul (Fin x) NegInf = signed_inf (- x)"
| "fmul PosInf (Fin y) = signed_inf y"
| "fmul PosInf PosInf = PosInf"
| "fmul PosInf NegInf = NegInf"
| "fmul NegInf (Fin y) = signed_inf (- y)"
| "fmul NegInf PosInf = NegInf"
| "fmul NegInf NegInf = PosInf"
| "fmul NaN y = NaN"
| "fmul x NaN = NaN"

fun fdiv :: "float64 \<Rightarrow> float64 \<Rightarrow> float64" where
  "fdiv (Fin x) (Fin y) = (if y = 0 then signed_inf x else Fin (x / y))"
| "fdiv (Fin x) PosInf = Fin 0"
| "fdiv (Fin x) NegInf = Fin 0"
| "fdiv PosInf (Fin y) = (if 0 \<le> y then PosInf else NegInf)"
| "fdiv PosInf PosInf = NaN"
| "fdiv PosInf NegInf = NaN"
| "fdiv NegInf (Fin y) = (if 0 \<le> y then NegInf else PosInf)"
| "fdiv NegInf PosInf = NaN"
| "fdiv NegInf NegInf = NaN"
| "fdiv NaN y = NaN"
| "fdiv x NaN = NaN"

fun np_exp :: "float64 \<Rightarrow> float64" where
  "np_exp (Fin x) = Fin (exp x)"
| "np_exp PosInf = PosInf"
| "np_exp NegInf = Fin 0"
| "np_exp NaN = NaN"

fun flt :: "float64 \<Rightarrow> float64 \<Rightarrow> bool" where
  "flt (Fin x) (Fin y) = (x < y)"
| "flt (Fin x) PosInf = True"
| "flt NegInf (Fin y) = True"
| "flt NegInf PosInf = True"
| "flt x y = False"

fun fle :: "float64 \<Rightarrow> float64 \<Rightarrow> bool" where
  "fle (Fin x) (Fin y) = (x \<le> y)"
| "fle (Fin x) PosInf = True"
| "fle NegInf (Fin y) = True"
| "fle NegInf PosInf = True"
| "fle NegInf NegInf = True"
| "fle PosInf PosInf = True"
| "fle x y = False"

subsection \<open>Matrices\<close>

datatype 'a matrix = Matrix (nrows: nat) (ncols: nat) (rows: "'a list list")

definition wf_matrix :: "'a matrix \<Rightarrow> bool" where
  "wf_matrix m \<longleftrightarrow>
     length (rows m) = nrows m \<and> list_all (\<lambda>r. length r = ncols m) (rows m)"

definition shape :: "'a matrix \<Rightarrow> nat \<times> nat" where
  "shape m = (nrows m, ncols m)"

definition entry :: "'a matrix \<Rightarrow> nat \<Rightarrow> nat \<Rightarrow> 'a" where
  "entry m i j = rows m ! i ! j"

definition mk_matrix :: "nat \<Rightarrow> nat \<Rightarrow> (nat \<Rightarrow> nat \<Rightarrow> 'a) \<Rightarrow> 'a matrix" where
  "mk_matrix r c f = Matrix r c (map (\<lambda>i. map (\<lambda>j. f i j) [0..<c]) [0..<r])"

text \<open>An elementwise function of one array (\<open>np.exp\<close>, \<open>-val\<close>, \<open>x / n\<close>, \<open>a < 0.5\<close>).\<close>

definition map_matrix :: "('a \<Rightarrow> 'b) \<Rightarrow> 'a matrix \<Rightarrow> 'b matrix" where
  "map_matrix f m = mk_matrix (nrows m) (ncols m) (\<lambda>i j. f (entry m i j))"

text \<open>The attribute \<open>.T\<close>.\<close>

definition T :: "'a matrix \<Rightarrow> 'a matrix" where
  "T m = mk_matrix (ncols m) (nrows m) (\<lambda>i j. entry m j i)"

text \<open>
  \<open>np.dot\<close> of two 2-D arrays is the matrix product; it raises ValueError when the
  inner dimensions differ. An entry is the sum of the products along the inner dimension,
  \<open>0.0\<close> when that dimension is empty. (With exact finite arithmetic the order of the
  summation does not change the sum.)
\<close>

definition fsum :: "float64 list \<Rightarrow> float64" where
  "fsum xs = foldl fadd (Fin 0) xs"

definition matmul :: "float64 matrix \<Rightarrow> float64 matrix \<Rightarrow> float64 matrix" where
  "matmul a b = mk_matrix (nrows a) (ncols b)
     (\<lambda>i j. fsum (map (\<lambda>k. fmul (entry a i k) (entry b k j)) [0..<ncols a]))"

definition dot :: "float64 matrix \<Rightarrow> float64 matrix \<Rightarrow> error + float64 matrix" where
  "dot a b = (if ncols a = nrows b then Inr (matmul a b) else Inl ValueError)"

text \<open>
  Elementwise binary operations broadcast: two dimensions are compatible when they are
  equal or one of them is 1, and the dimension of size 1 is stretched.
\<close>

definition broadcast_dim :: "nat \<Rightarrow> nat \<Rightarrow> nat option" where
  "broadcast_dim m n =
     (if m = n then Some m else if m = 1 then Some n else if n = 1 then Some m else None)"

definition stretch :: "nat \<Rightarrow> nat \<Rightarrow> nat" where
  "stretch n i = (if n = 1 then 0 else i)"

definition elementwise ::
  "('a \<Rightarrow> 'b \<Rightarrow> 'c) \<Rightarrow> 'a matrix \<Rightarrow> 'b matrix \<Rightarrow> error + 'c matrix" where
  "elementwise f a b =
     (case (broadcast_dim (nrows a) (nrows b), broadcast_dim (ncols a) (ncols b)) of
        (Some r, Some c) \<Rightarrow>
          Inr (mk_matrix r c (\<lambda>i j.
            f (entry a (stretch (nrows a) i) (stretch (ncols a) j))
              (entry b (stretch (nrows b) i) (stretch (ncols b) j))))
      | _ \<Rightarrow> Inl ValueError)"

definition subtract :: "float64 matrix \<Rightarrow> float64 matrix \<Rightarrow> error + float64 matrix" where
  "subtract a b = elementwise fsub a b"

definition multiply :: "float64 matrix \<Rightarrow> float64 matrix \<Rightarrow> error + float64 matrix" where
  "multiply a b = elementwise fmul a b"

text \<open>
  The in-place \<open>a -= b\<close>: the result is written into \<open>a\<close>, so \<open>b\<close> must broadcast to the
  shape of \<open>a\<close>; otherwise numpy raises ValueError and \<open>a\<close> is unchanged.
\<close>

definition isub :: "float64 matrix \<Rightarrow> float64 matrix \<Rightarrow> error + float64 matrix" where
  "isub a b =
     (case subtract a b of
        Inl e \<Rightarrow> Inl e
      | Inr d \<Rightarrow> if shape d = shape a then Inr d else Inl ValueError)"

text \<open>
  Subscription \<open>xs[i]\<close> of a list or tuple: positions \<open>0 .. len - 1\<close>, or \<open>-len .. -1\<close>
  counted from the end; anything else raises IndexError.
\<close>

definition item :: "'a list \<Rightarrow> int \<Rightarrow> error + 'a" where
  "item xs i =
     (if 0 \<le> i \<and> i < int (length xs) then Inr (xs ! nat i)
      else if - int (length xs) \<le> i \<and> i < 0 then Inr (xs ! nat (int (length xs) + i))
      else Inl IndexError)"

subsection \<open>The activation function\<close>

text \<open>
  \<open>sig_func\<close> and \<open>sig_func_g\<close> are called on arrays and work elementwise; they are given
  here on one entry and applied with \<open>map_matrix\<close>. The Python integer 1 becomes the float
  \<open>1.0\<close>.
\<close>

definition sig_func :: "float64 \<Rightarrow> float64" where
  "sig_func val = fdiv (Fin 1) (fadd (Fin 1) (np_exp (fneg val)))"

definition sig_func_g :: "float64 \<Rightarrow> float64" where
  "sig_func_g val = fmul (sig_func val) (fsub (Fin 1) (sig_func val))"

subsection \<open>The network and the arrays it shares with its caller\<close>

text \<open>
  \<open>train\<close> updates the weight arrays in place, and these arrays are the caller's own
  objects: the constructor keeps the references it is given. So the arrays live in a heap,
  a list of matrices in which an address is a position, and the network holds the tuple of
  the addresses of its weight arrays. The cached activations are only read between a
  forward pass and the end of the same call of \<open>gradients\<close>, during which no array is
  written, so the cache holds their values.
\<close>

type_synonym addr = nat

type_synonym heap = "float64 matrix list"

record SimpleNetwork =
  weights :: "addr list"
  activations :: "float64 matrix list"

definition init :: "addr list \<Rightarrow> SimpleNetwork" where
  "init layer_weights = \<lparr>weights = layer_weights, activations = []\<rparr>"

definition weight_arrays :: "heap \<Rightarrow> SimpleNetwork \<Rightarrow> float64 matrix list" where
  "weight_arrays h self = map (\<lambda>a. h ! a) (weights self)"

subsection \<open>Random construction\<close>

text \<open>
  The generator is the sequence of samples of the unit interval that it will hand out
  next. \<open>np.random.uniform(low, high, size)\<close> consumes one sample per entry, row by row,
  and scales it to \<open>low + (high - low) * u\<close>, a finite number; it raises ValueError for a
  negative dimension. \<open>math.sqrt\<close> raises ValueError for a negative argument, and the
  division of Python floats by \<open>math.sqrt(0)\<close> raises ZeroDivisionError.
\<close>

type_synonym rng = "nat \<Rightarrow> real"

definition np_random_uniform ::
  "real \<Rightarrow> real \<Rightarrow> int \<times> int \<Rightarrow> rng \<Rightarrow> error + (float64 matrix \<times> rng)" where
  "np_random_uniform low high shp g =
     (case shp of (r, c) \<Rightarrow>
        if r < 0 \<or> c < 0 then Inl ValueError
        else Inr (mk_matrix (nat r) (nat c)
                    (\<lambda>i j. Fin (low + (high - low) * g (i * nat c + j))),
                  (\<lambda>k. g (k + nat r * nat c))))"

definition uniform :: "int \<Rightarrow> int \<Rightarrow> rng \<Rightarrow> error + (float64 matrix \<times> rng)" where
  "uniform n_in n_out g =
     (if n_in + n_out < 0 then Inl ValueError
      else if n_in + n_out = 0 then Inl ZeroDivisionError
      else
        let epsilon = sqrt 6 / sqrt (of_int (n_in + n_out))
        in np_random_uniform (- epsilon) epsilon (n_in, n_out) g)"

text \<open>The list comprehension over the pairs of consecutive layer sizes.\<close>

fun uniform_each :: "(int \<times> int) list \<Rightarrow> rng \<Rightarrow> error + (float64 matrix list \<times> rng)" where
  "uniform_each [] g = Inr ([], g)"
| "uniform_each ((i, o') # pairs) g =
     (case uniform i o' g of
        Inl e \<Rightarrow> Inl e
      | Inr (m, g') \<Rightarrow>
          (case uniform_each pairs g' of
             Inl e \<Rightarrow> Inl e
           | Inr (ms, g'') \<Rightarrow> Inr (m # ms, g'')))"

text \<open>
  \<open>random\<close> returns the network; the new arrays are appended to the heap and the
  generator has moved on.
\<close>

definition random ::
  "heap \<Rightarrow> rng \<Rightarrow> int list \<Rightarrow> error + (SimpleNetwork \<times> heap \<times> rng)" where
  "random h g layer_units =
     (let pairs = zip layer_units (drop 1 layer_units)
      in case uniform_each pairs g of
           Inl e \<Rightarrow> Inl e
         | Inr (ms, g') \<Rightarrow> Inr (init [length h ..< length h + length ms], h @ ms, g'))"

subsection \<open>Forward propagation\<close>

fun predict_loop :: "float64 matrix list \<Rightarrow> float64 matrix list \<Rightarrow> error + float64 matrix list" where
  "predict_loop [] acts = Inr acts"
| "predict_loop (weight # rest) acts =
     (case item acts (- 1) of
        Inl e \<Rightarrow> Inl e
      | Inr a \<Rightarrow>
          (case dot a weight of
             Inl e \<Rightarrow> Inl e
           | Inr z \<Rightarrow> predict_loop rest (acts @ [map_matrix sig_func z])))"

definition predict ::
  "heap \<Rightarrow> SimpleNetwork \<Rightarrow> float64 matrix \<Rightarrow> error + (float64 matrix \<times> SimpleNetwork)" where
  "predict h self input_matrix =
     (case predict_loop (weight_arrays h self) [input_matrix] of
        Inl e \<Rightarrow> Inl e
      | Inr acts \<Rightarrow>
          (case item acts (- 1) of
             Inl e \<Rightarrow> Inl e
           | Inr out \<Rightarrow> Inr (out, self\<lparr>activations := acts\<rparr>)))"

text \<open>\<open>np.where(a < 0.5, 0, 1)\<close>: a boolean array, then the choice entry by entry.\<close>

definition np_where :: "bool matrix \<Rightarrow> 'a \<Rightarrow> 'a \<Rightarrow> 'a matrix" where
  "np_where cond x y = map_matrix (\<lambda>b. if b then x else y) cond"

definition predict_zero_one ::
  "heap \<Rightarrow> SimpleNetwork \<Rightarrow> float64 matrix \<Rightarrow> error + (int matrix \<times> SimpleNetwork)" where
  "predict_zero_one h self input_matrix =
     (case predict h self input_matrix of
        Inl e \<Rightarrow> Inl e
      | Inr (p, self') \<Rightarrow>
          Inr (np_where (map_matrix (\<lambda>v. flt v (Fin 0.5)) p) 0 1, self'))"

subsection \<open>Back-propagation\<close>

text \<open>
  One pass of the body of the \<open>while\<close> loop, for \<open>layer \<ge> 1\<close>: it returns the new
  \<open>g_last\<close> and the matrix that the loop inserts at the front of \<open>grad\<close>.
\<close>

definition back_step ::
  "float64 matrix list \<Rightarrow> float64 matrix list \<Rightarrow> int \<Rightarrow> float64 matrix \<Rightarrow>
     error + (float64 matrix \<times> float64 matrix)" where
  "back_step ws acts layer g_last =
     (case item ws layer of Inl e \<Rightarrow> Inl e | Inr w \<Rightarrow>
     (case dot w g_last of Inl e \<Rightarrow> Inl e | Inr wg \<Rightarrow>
     (let error_l = T wg in
     (case item acts (layer - 1) of Inl e \<Rightarrow> Inl e | Inr h_prev \<Rightarrow>
     (case item ws (layer - 1) of Inl e \<Rightarrow> Inl e | Inr w_prev \<Rightarrow>
     (case dot h_prev w_prev of Inl e \<Rightarrow> Inl e | Inr a_last \<Rightarrow>
     (case multiply error_l (map_matrix sig_func_g a_last) of Inl e \<Rightarrow> Inl e | Inr eg \<Rightarrow>
     (let g_last' = T eg in
     (case dot g_last' h_prev of Inl e \<Rightarrow> Inl e | Inr gh \<Rightarrow>
      Inr (g_last', T gh))))))))))"

function back_propagate ::
  "float64 matrix list \<Rightarrow> float64 matrix list \<Rightarrow> int \<Rightarrow> float64 matrix \<Rightarrow> float64 matrix list \<Rightarrow>
     error + float64 matrix list" where
  "back_propagate ws acts layer g_last grad =
     (if layer \<ge> 1 then
        (case back_step ws acts layer g_last of
           Inl e \<Rightarrow> Inl e
         | Inr (g_last', gr) \<Rightarrow> back_propagate ws acts (layer - 1) g_last' (gr # grad))
      else Inr grad)"
  by pat_completeness auto
termination
  by (relation "measure (\<lambda>(ws, acts, layer, g_last, grad). nat layer)") auto

text \<open>
  The division \<open>x / n_input\<close> at the end divides every entry by the number of rows of the
  input, a Python integer that numpy takes as a float. For an empty batch that is a
  division by zero, which does not raise: the quotient is nan or an infinity.
\<close>

definition gradients ::
  "heap \<Rightarrow> SimpleNetwork \<Rightarrow> float64 matrix \<Rightarrow> float64 matrix \<Rightarrow>
     error + (float64 matrix list \<times> SimpleNetwork)" where
  "gradients h self input_matrix output_matrix =
     (let layer = int (length (weights self)) - 1 in
     (case predict h self input_matrix of Inl e \<Rightarrow> Inl e | Inr (h_lastest, self') \<Rightarrow>
     (case subtract h_lastest output_matrix of Inl e \<Rightarrow> Inl e | Inr error_lastest \<Rightarrow>
     (case item (activations self') layer of Inl e \<Rightarrow> Inl e | Inr h_prev \<Rightarrow>
     (case item (weight_arrays h self') layer of Inl e \<Rightarrow> Inl e | Inr w \<Rightarrow>
     (case dot h_prev w of Inl e \<Rightarrow> Inl e | Inr a_lastest \<Rightarrow>
     (case multiply error_lastest (map_matrix sig_func_g a_lastest) of
        Inl e \<Rightarrow> Inl e | Inr eg \<Rightarrow>
     (let g_lastest = T eg; g_last = g_lastest in
     (case dot g_last h_prev of Inl e \<Rightarrow> Inl e | Inr gh \<Rightarrow>
     (let grad = [T gh] in
     (case back_propagate (weight_arrays h self') (activations self') layer g_last grad of
        Inl e \<Rightarrow> Inl e | Inr grad' \<Rightarrow>
     (let n_input = nrows input_matrix in
      Inr (map (map_matrix (\<lambda>x. fdiv x (Fin (real n_input)))) grad', self')))))))))))))"

subsection \<open>Training\<close>

text \<open>
  The inner loop over \<open>zip(gradients, self.weights)\<close>: \<open>weight\<close> is a reference, and
  \<open>weight -= learning_rate * grad\<close> writes the array it refers to.
\<close>

fun update_weights :: "float64 \<Rightarrow> (float64 matrix \<times> addr) list \<Rightarrow> heap \<Rightarrow> error + heap" where
  "update_weights learning_rate [] h = Inr h"
| "update_weights learning_rate ((grad, weight) # rest) h =
     (case isub (h ! weight) (map_matrix (\<lambda>x. fmul learning_rate x) grad) of
        Inl e \<Rightarrow> Inl e
      | Inr m \<Rightarrow> update_weights learning_rate rest (h[weight := m]))"

text \<open>
  The outer loop, \<open>for _ in range(0, iterations)\<close>, on the number of passes left. The
  input and the expected output are references too, read again at every pass.
\<close>

fun train_loop ::
  "addr \<Rightarrow> addr \<Rightarrow> float64 \<Rightarrow> nat \<Rightarrow> heap \<times> SimpleNetwork \<Rightarrow>
     error + (heap \<times> SimpleNetwork)" where
  "train_loop input_matrix output_matrix learning_rate 0 (h, self) = Inr (h, self)"
| "train_loop input_matrix output_matrix learning_rate (Suc n) (h, self) =
     (case gradients h self (h ! input_matrix) (h ! output_matrix) of
        Inl e \<Rightarrow> Inl e
      | Inr (gradients', self') \<Rightarrow>
          (case update_weights learning_rate (zip gradients' (weights self')) h of
             Inl e \<Rightarrow> Inl e
           | Inr h' \<Rightarrow> train_loop input_matrix output_matrix learning_rate n (h', self')))"

text \<open>
  An argument that the caller leaves out is \<open>None\<close> and takes its default. \<open>range(0, n)\<close>
  is empty for \<open>n \<le> 0\<close>, which is what \<open>nat\<close> gives.
\<close>

definition train ::
  "heap \<Rightarrow> SimpleNetwork \<Rightarrow> addr \<Rightarrow> addr \<Rightarrow> int option \<Rightarrow> float64 option \<Rightarrow>
     error + (heap \<times> SimpleNetwork)" where
  "train h self input_matrix output_matrix iterations_arg learning_rate_arg =
     (let iterations = (case iterations_arg of None \<Rightarrow> 10 | Some i \<Rightarrow> i);
          learning_rate = (case learning_rate_arg of None \<Rightarrow> Fin 0.1 | Some r \<Rightarrow> r)
      in train_loop input_matrix output_matrix learning_rate (nat iterations) (h, self))"

section \<open>The specification's formulas\<close>

text \<open>
  The specification describes the passes by formulas on matrices of matching shapes,
  layer by layer. These definitions follow its words, with its sums, products, quotients
  and exponentials read as those of float64; the theorems below compare them with the
  program.
\<close>

text \<open>Consecutive shapes fit: the input has as many columns as the first weight matrix
  has rows, and so on along the sequence of weights.\<close>

fun shapes_chain :: "nat \<Rightarrow> float64 matrix list \<Rightarrow> bool" where
  "shapes_chain n [] = True"
| "shapes_chain n (w # ws) = (nrows w = n \<and> shapes_chain (ncols w) ws)"

text \<open>\<open>activation_{l+1} = sigmoid(activation_l \<times> weight_l)\<close>.\<close>

definition spec_layer :: "float64 matrix \<Rightarrow> float64 matrix \<Rightarrow> float64 matrix" where
  "spec_layer a w =
     map_matrix (\<lambda>x. fdiv (Fin 1) (fadd (Fin 1) (np_exp (fneg x)))) (matmul a w)"

definition spec_forward :: "float64 matrix list \<Rightarrow> float64 matrix \<Rightarrow> float64 matrix" where
  "spec_forward ws x = foldl spec_layer x ws"

text \<open>\<open>h_l\<close>, the activation of layer \<open>l\<close>: the forward pass through the first \<open>l\<close> weights.\<close>

definition spec_h :: "float64 matrix list \<Rightarrow> float64 matrix \<Rightarrow> nat \<Rightarrow> float64 matrix" where
  "spec_h ws x l = spec_forward (take l ws) x"

definition spec_activations :: "float64 matrix list \<Rightarrow> float64 matrix \<Rightarrow> float64 matrix list" where
  "spec_activations ws x = map (spec_h ws x) [0..<Suc (length ws)]"

text \<open>Elementwise difference and product of matrices of one shape, and the derivative
  \<open>s(x)(1 - s(x))\<close> of the sigmoid.\<close>

definition mat_diff :: "float64 matrix \<Rightarrow> float64 matrix \<Rightarrow> float64 matrix" where
  "mat_diff a b = mk_matrix (nrows a) (ncols a) (\<lambda>i j. fsub (entry a i j) (entry b i j))"

definition hadamard :: "float64 matrix \<Rightarrow> float64 matrix \<Rightarrow> float64 matrix" where
  "hadamard a b = mk_matrix (nrows a) (ncols a) (\<lambda>i j. fmul (entry a i j) (entry b i j))"

definition spec_sigmoid' :: "float64 \<Rightarrow> float64" where
  "spec_sigmoid' x =
     fmul (fdiv (Fin 1) (fadd (Fin 1) (np_exp (fneg x))))
       (fsub (Fin 1) (fdiv (Fin 1) (fadd (Fin 1) (np_exp (fneg x)))))"

text \<open>
  \<open>g_L = (error_L \<odot> sigmoid'(h_{L-1} \<times> weight_{L-1}))\<^sup>t\<close> with \<open>error_L = h_L - y\<close>, and
  for \<open>1 \<le> l < L\<close>, \<open>g_l = (error_l \<odot> sigmoid'(h_{l-1} \<times> weight_{l-1}))\<^sup>t\<close> with
  \<open>error_l = (weight_l \<times> g_{l+1})\<^sup>t\<close>. The layers are \<open>1 \<le> l \<le> L\<close>, where \<open>L\<close> is the number
  of weight matrices.
\<close>

function spec_g :: "float64 matrix list \<Rightarrow> float64 matrix \<Rightarrow> float64 matrix \<Rightarrow> nat \<Rightarrow> float64 matrix" where
  "spec_g ws x y l =
     (let error_l = (if l < length ws then T (matmul (ws ! l) (spec_g ws x y (Suc l)))
                     else mat_diff (spec_h ws x (length ws)) y)
      in T (hadamard error_l
              (map_matrix spec_sigmoid' (matmul (spec_h ws x (l - 1)) (ws ! (l - 1))))))"
  by pat_completeness auto
termination
  by (relation "measure (\<lambda>(ws, x, y, l). length ws - l)") auto

text \<open>\<open>grad_{l-1} = (g_l \<times> h_{l-1})\<^sup>t / N\<close>, here for the index of the weight matrix.\<close>

definition spec_grad :: "float64 matrix list \<Rightarrow> float64 matrix \<Rightarrow> float64 matrix \<Rightarrow> nat \<Rightarrow> float64 matrix" where
  "spec_grad ws x y l =
     map_matrix (\<lambda>v. fdiv v (Fin (real (nrows x))))
       (T (matmul (spec_g ws x y (Suc l)) (spec_h ws x l)))"

text \<open>The same product before the division by \<open>N\<close>.\<close>

definition raw_grad :: "float64 matrix list \<Rightarrow> float64 matrix \<Rightarrow> float64 matrix \<Rightarrow> nat \<Rightarrow> float64 matrix" where
  "raw_grad ws x y l = T (matmul (spec_g ws x y (Suc l)) (spec_h ws x l))"

definition spec_gradients ::
  "float64 matrix list \<Rightarrow> float64 matrix \<Rightarrow> float64 matrix \<Rightarrow> float64 matrix list" where
  "spec_gradients ws x y = map (spec_grad ws x y) [0..<length ws]"

text \<open>
  One repetition of training, as the specification words it: compute the gradients, then
  for every layer \<open>l\<close>, in order, \<open>weight_l \<leftarrow> weight_l - learning_rate \<times> grad_l\<close>, in
  place. \<open>and_then\<close> passes an exception on.
\<close>

definition and_then :: "error + 'a \<Rightarrow> ('a \<Rightarrow> error + 'b) \<Rightarrow> error + 'b" where
  "and_then r f = (case r of Inl e \<Rightarrow> Inl e | Inr v \<Rightarrow> f v)"

definition spec_assign ::
  "float64 \<Rightarrow> float64 matrix list \<Rightarrow> addr list \<Rightarrow> heap \<Rightarrow> nat \<Rightarrow> error + heap" where
  "spec_assign learning_rate grads ws h l =
     and_then (isub (h ! (ws ! l)) (map_matrix (\<lambda>x. fmul learning_rate x) (grads ! l)))
       (\<lambda>m. Inr (h[ws ! l := m]))"

definition spec_update ::
  "float64 \<Rightarrow> float64 matrix list \<Rightarrow> addr list \<Rightarrow> heap \<Rightarrow> error + heap" where
  "spec_update learning_rate grads ws h =
     foldl (\<lambda>r l. and_then r (\<lambda>h'. spec_assign learning_rate grads ws h' l))
       (Inr h) [0..<length ws]"

definition spec_step ::
  "addr \<Rightarrow> addr \<Rightarrow> float64 \<Rightarrow> heap \<times> SimpleNetwork \<Rightarrow> error + (heap \<times> SimpleNetwork)" where
  "spec_step input_matrix output_matrix learning_rate s =
     (case s of (h, self) \<Rightarrow>
        and_then (gradients h self (h ! input_matrix) (h ! output_matrix))
          (\<lambda>(grads, self').
             and_then (spec_update learning_rate grads (weights self') h)
               (\<lambda>h'. Inr (h', self'))))"

text \<open>\<open>n\<close> repetitions of the step, each on the heap and the network the one before left.\<close>

definition spec_train ::
  "addr \<Rightarrow> addr \<Rightarrow> float64 \<Rightarrow> nat \<Rightarrow> heap \<times> SimpleNetwork \<Rightarrow>
     error + (heap \<times> SimpleNetwork)" where
  "spec_train input_matrix output_matrix learning_rate n s =
     ((\<lambda>r. and_then r (spec_step input_matrix output_matrix learning_rate)) ^^ n) (Inr s)"

section \<open>Concrete networks\<close>

text \<open>
  A heap of four arrays: the weights of a network with layers of 1, 2 and 1 units, an
  input of one row and its expected output.
\<close>

definition heap4 :: heap where
  "heap4 = [Matrix 1 2 [[Fin 0, Fin 0]], Matrix 2 1 [[Fin 1], [Fin (- 1)]],
              Matrix 1 1 [[Fin 1]], Matrix 1 1 [[Fin 0]]]"

definition net121 :: SimpleNetwork where
  "net121 = init [0, 1]"

text \<open>A generator that always hands out the sample 0.\<close>

definition rng0 :: rng where
  "rng0 k = 0"


section \<open>Properties of the matrix operations\<close>

declare spec_g.simps [simp del]
declare back_propagate.simps [simp del]

lemma nrows_mk_matrix [simp]: "nrows (mk_matrix r c f) = r"
  by (simp add: mk_matrix_def)

lemma ncols_mk_matrix [simp]: "ncols (mk_matrix r c f) = c"
  by (simp add: mk_matrix_def)

lemma entry_mk_matrix [simp]: "i < r \<Longrightarrow> j < c \<Longrightarrow> entry (mk_matrix r c f) i j = f i j"
  by (simp add: mk_matrix_def entry_def)

lemma wf_mk_matrix [simp]: "wf_matrix (mk_matrix r c f)"
  by (simp add: mk_matrix_def wf_matrix_def list_all_iff)

lemma mk_matrix_cong:
  "r = r' \<Longrightarrow> c = c' \<Longrightarrow> (\<And>i j. i < r \<Longrightarrow> j < c \<Longrightarrow> f i j = g i j) \<Longrightarrow>
   mk_matrix r c f = mk_matrix r' c' g"
  by (simp add: mk_matrix_def)

lemma shape_mk_matrix [simp]: "shape (mk_matrix r c f) = (r, c)"
  by (simp add: shape_def)

lemma nrows_map_matrix [simp]: "nrows (map_matrix f m) = nrows m"
  by (simp add: map_matrix_def)

lemma ncols_map_matrix [simp]: "ncols (map_matrix f m) = ncols m"
  by (simp add: map_matrix_def)

lemma entry_map_matrix [simp]:
  "i < nrows m \<Longrightarrow> j < ncols m \<Longrightarrow> entry (map_matrix f m) i j = f (entry m i j)"
  by (simp add: map_matrix_def)

lemma nrows_T [simp]: "nrows (T m) = ncols m"
  by (simp add: T_def)

lemma ncols_T [simp]: "ncols (T m) = nrows m"
  by (simp add: T_def)

lemma entry_T [simp]: "i < ncols m \<Longrightarrow> j < nrows m \<Longrightarrow> entry (T m) i j = entry m j i"
  by (simp add: T_def)

lemma nrows_matmul [simp]: "nrows (matmul a b) = nrows a"
  by (simp add: matmul_def)

lemma ncols_matmul [simp]: "ncols (matmul a b) = ncols b"
  by (simp add: matmul_def)

lemma dot_compatible: "ncols a = nrows b \<Longrightarrow> dot a b = Inr (matmul a b)"
  by (simp add: dot_def)

lemma elementwise_same_shape:
  "nrows a = nrows b \<Longrightarrow> ncols a = ncols b \<Longrightarrow>
   elementwise f a b = Inr (mk_matrix (nrows a) (ncols a) (\<lambda>i j. f (entry a i j) (entry b i j)))"
  by (auto simp: elementwise_def broadcast_dim_def stretch_def intro!: mk_matrix_cong)

lemma subtract_same_shape:
  "nrows a = nrows b \<Longrightarrow> ncols a = ncols b \<Longrightarrow> subtract a b = Inr (mat_diff a b)"
  by (simp add: subtract_def mat_diff_def elementwise_same_shape)

lemma multiply_same_shape:
  "nrows a = nrows b \<Longrightarrow> ncols a = ncols b \<Longrightarrow> multiply a b = Inr (hadamard a b)"
  by (simp add: multiply_def hadamard_def elementwise_same_shape)

lemma nrows_mat_diff [simp]: "nrows (mat_diff a b) = nrows a"
  by (simp add: mat_diff_def)

lemma ncols_mat_diff [simp]: "ncols (mat_diff a b) = ncols a"
  by (simp add: mat_diff_def)

lemma nrows_hadamard [simp]: "nrows (hadamard a b) = nrows a"
  by (simp add: hadamard_def)

lemma ncols_hadamard [simp]: "ncols (hadamard a b) = ncols a"
  by (simp add: hadamard_def)

lemma isub_shape: "isub a b = Inr m \<Longrightarrow> shape m = shape a"
  by (auto simp: isub_def split: sum.splits if_splits)

lemma fsum_Nil [simp]: "fsum [] = Fin 0"
  by (simp add: fsum_def)

lemma sig_func_Fin: "sig_func (Fin r) = Fin (1 / (1 + exp (- r)))"
proof -
  have "1 + exp (- r) \<noteq> 0"
    using exp_gt_zero [of "- r"] by linarith
  then show ?thesis by (simp add: sig_func_def)
qed

lemma sig_func_PosInf: "sig_func PosInf = Fin 1"
  by (simp add: sig_func_def)

lemma sig_func_NegInf: "sig_func NegInf = Fin 0"
  by (simp add: sig_func_def)

lemma sig_func_NaN: "sig_func NaN = NaN"
  by (simp add: sig_func_def)


lemma sig_func_range: "sig_func v = NaN \<or> (\<exists>r. sig_func v = Fin r \<and> 0 \<le> r \<and> r \<le> 1)"
proof (cases v)
  case (Fin x)
  have "0 < exp (- x)" by simp
  then have "0 \<le> 1 / (1 + exp (- x))" "1 / (1 + exp (- x)) \<le> 1"
    by (simp_all add: add_pos_pos less_imp_le)
  with Fin show ?thesis by (simp add: sig_func_Fin)
qed (simp_all add: sig_func_PosInf sig_func_NegInf sig_func_NaN)

lemma not_flt_iff: "\<not> flt v (Fin c) \<longleftrightarrow> fle (Fin c) v \<or> v = NaN"
  by (cases v) auto

lemma sig_func_0: "sig_func (Fin 0) = Fin (1 / 2)"
  by (simp add: sig_func_Fin)

lemma sig_func_g_0: "sig_func_g (Fin 0) = Fin (1 / 4)"
  by (simp add: sig_func_g_def sig_func_0 fsub_def)

lemma sig_func_g_spec: "map_matrix sig_func_g m = map_matrix spec_sigmoid' m"
  by (simp add: map_matrix_def sig_func_g_def sig_func_def spec_sigmoid'_def)

lemma item_last: "xs \<noteq> [] \<Longrightarrow> item xs (- 1) = Inr (last xs)"
proof -
  assume "xs \<noteq> []"
  then have "0 < length xs" by simp
  then have "nat (int (length xs) + - 1) = length xs - 1" "- int (length xs) \<le> - 1"
    by linarith+
  with \<open>xs \<noteq> []\<close> show ?thesis
    by (simp add: item_def last_conv_nth)
qed

lemma item_nat: "i < length xs \<Longrightarrow> item xs (int i) = Inr (xs ! i)"
  by (simp add: item_def)

lemma item_empty: "item [] i = Inl IndexError"
  by (simp add: item_def)

lemma and_then_Inl [simp]: "and_then (Inl e) f = Inl e"
  by (simp add: and_then_def)

lemma and_then_Inr [simp]: "and_then (Inr v) f = f v"
  by (simp add: and_then_def)

lemma and_then_assoc: "and_then (and_then r f) g = and_then r (\<lambda>v. and_then (f v) g)"
  by (cases r) simp_all

lemma and_then_Inr_id [simp]: "and_then r Inr = r"
  by (cases r) simp_all

lemma foldl_and_then_Inl [simp]:
  "foldl (\<lambda>r l. and_then r (f l)) (Inl e) ls = Inl e"
  by (induction ls) simp_all

section \<open>The forward pass\<close>

lemma weights_init [simp]: "weights (init ws) = ws"
  by (simp add: init_def)

lemma spec_layer_sig_func: "map_matrix sig_func (matmul a w) = spec_layer a w"
  by (simp add: spec_layer_def map_matrix_def sig_func_def)

lemma ncols_spec_layer [simp]: "ncols (spec_layer a w) = ncols w"
  by (simp add: spec_layer_def)

lemma nrows_spec_layer [simp]: "nrows (spec_layer a w) = nrows a"
  by (simp add: spec_layer_def)

lemma spec_h_0 [simp]: "spec_h ws x 0 = x"
  by (simp add: spec_h_def spec_forward_def)

lemma spec_h_Suc: "l < length ws \<Longrightarrow> spec_h ws x (Suc l) = spec_layer (spec_h ws x l) (ws ! l)"
  by (simp add: spec_h_def spec_forward_def take_Suc_conv_app_nth)

lemma nrows_spec_h [simp]: "nrows (spec_h ws x l) = nrows x"
proof (induction l)
  case 0
  show ?case by simp
next
  case (Suc l)
  show ?case
  proof (cases "l < length ws")
    case True
    with Suc show ?thesis by (simp add: spec_h_Suc)
  next
    case False
    with Suc show ?thesis by (simp add: spec_h_def)
  qed
qed

lemma ncols_spec_h:
  "l \<le> length ws \<Longrightarrow> ncols (spec_h ws x l) = (if l = 0 then ncols x else ncols (ws ! (l - 1)))"
  by (cases l) (simp_all add: spec_h_Suc)

lemma shapes_chain_nth:
  "shapes_chain n ws \<Longrightarrow> l < length ws \<Longrightarrow>
   nrows (ws ! l) = (if l = 0 then n else ncols (ws ! (l - 1)))"
proof (induction ws arbitrary: n l)
  case Nil
  then show ?case by simp
next
  case (Cons w ws)
  show ?case
  proof (cases l)
    case 0
    with Cons.prems show ?thesis by simp
  next
    case (Suc k)
    with Cons.prems have "nrows (ws ! k) = (if k = 0 then ncols w else ncols (ws ! (k - 1)))"
      by (intro Cons.IH) simp_all
    with Suc show ?thesis by (cases k) simp_all
  qed
qed

lemma spec_h_fits:
  "shapes_chain (ncols x) ws \<Longrightarrow> l < length ws \<Longrightarrow> ncols (spec_h ws x l) = nrows (ws ! l)"
  by (simp add: ncols_spec_h shapes_chain_nth)

lemma length_spec_activations [simp]: "length (spec_activations ws x) = Suc (length ws)"
  by (simp add: spec_activations_def)

lemma nth_spec_activations:
  "l \<le> length ws \<Longrightarrow> spec_activations ws x ! l = spec_h ws x l"
  unfolding spec_activations_def
  by (metis add_0 diff_zero le_imp_less_Suc nth_map_upt)

lemma last_spec_activations: "last (spec_activations ws x) = spec_forward ws x"
  by (simp add: spec_activations_def spec_h_def)

lemma spec_activations_nonempty [simp]: "spec_activations ws x \<noteq> []"
  by (simp add: spec_activations_def)

lemma predict_loop_chain:
  "shapes_chain (ncols a) ws \<Longrightarrow>
   predict_loop ws (acts @ [a]) = Inr (acts @ spec_activations ws a)"
proof (induction ws arbitrary: acts a)
  case Nil
  then show ?case by (simp add: spec_activations_def spec_h_def spec_forward_def)
next
  case (Cons w ws)
  have chain: "shapes_chain (ncols (spec_layer a w)) ws" and fit: "ncols a = nrows w"
    using Cons.prems by simp_all
  have step: "predict_loop (w # ws) (acts @ [a]) = predict_loop ws ((acts @ [a]) @ [spec_layer a w])"
    using fit by (simp add: item_last dot_compatible spec_layer_sig_func)
  have shift: "spec_activations (w # ws) a = a # spec_activations ws (spec_layer a w)"
    by (simp add: spec_activations_def spec_h_def spec_forward_def map_upt_Suc del: upt_Suc)
  show ?case
    unfolding step Cons.IH [OF chain] shift by simp
qed

lemma predict_chain:
  assumes "shapes_chain (ncols x) (weight_arrays h self)"
  shows "predict h self x =
         Inr (spec_forward (weight_arrays h self) x,
              self\<lparr>activations := spec_activations (weight_arrays h self) x\<rparr>)"
  using predict_loop_chain [OF assms, of "[]"]
  by (simp add: predict_def item_last last_spec_activations)

lemma predict_loop_length:
  "predict_loop ws acts = Inr acts' \<Longrightarrow> length acts' = length acts + length ws"
  by (induction ws arbitrary: acts) (auto split: sum.splits)

lemma predict_loop_last:
  "predict_loop ws acts = Inr acts' \<Longrightarrow> ws \<noteq> [] \<Longrightarrow> \<exists>z. last acts' = map_matrix sig_func z"
proof (induction ws arbitrary: acts)
  case Nil
  then show ?case by simp
next
  case (Cons w ws)
  show ?case
  proof (cases "ws = []")
    case True
    with Cons.prems show ?thesis by (auto split: sum.splits)
  next
    case False
    with Cons.prems Cons.IH show ?thesis by (auto split: sum.splits)
  qed
qed

lemma predict_cases:
  assumes "predict h self x = Inr (out, self')"
  shows "\<exists>acts. predict_loop (weight_arrays h self) [x] = Inr acts \<and> acts \<noteq> [] \<and>
          out = last acts \<and> self' = self\<lparr>activations := acts\<rparr>"
proof -
  from assms obtain acts where loop: "predict_loop (weight_arrays h self) [x] = Inr acts"
    by (auto simp: predict_def split: sum.splits)
  from predict_loop_length [OF loop] have ne: "acts \<noteq> []" by auto
  from assms loop ne show ?thesis
    by (auto simp: predict_def item_last)
qed

lemma predict_weights:
  "predict h self x = Inr (out, self') \<Longrightarrow> weights self' = weights self"
  by (auto dest: predict_cases)

lemma predict_no_weights: "weights self = [] \<Longrightarrow> predict h self x = Inr (x, self\<lparr>activations := [x]\<rparr>)"
  by (simp add: predict_def weight_arrays_def item_def)

lemma random_short: "length layer_units < 2 \<Longrightarrow> random h g layer_units = Inr (init [], h, g)"
  by (cases layer_units; cases "tl layer_units") (auto simp: random_def)

section \<open>The backward pass\<close>

lemma ncols_spec_g [simp]: "ncols (spec_g ws x y l) = nrows x"
proof (induction ws x y l rule: spec_g.induct)
  case (1 ws x y l)
  show ?case
  proof (cases "l < length ws")
    case True
    with 1 show ?thesis by (subst spec_g.simps) simp
  next
    case False
    then show ?thesis by (subst spec_g.simps) simp
  qed
qed

lemma nrows_spec_g:
  "nrows (spec_g ws x y l) =
     (if l < length ws then nrows (ws ! l) else ncols (spec_h ws x (length ws)))"
  by (subst spec_g.simps) simp

lemma nrows_spec_g_Suc:
  assumes "shapes_chain (ncols x) ws" and "l < length ws"
  shows "nrows (spec_g ws x y (Suc l)) = ncols (ws ! l)"
proof (cases "Suc l < length ws")
  case True
  with shapes_chain_nth [OF assms(1) True] show ?thesis
    by (simp add: nrows_spec_g)
next
  case False
  with assms(2) have "length ws = Suc l" by simp
  then show ?thesis
    by (simp add: nrows_spec_g ncols_spec_h)
qed

lemma shape_spec_grad:
  assumes "shapes_chain (ncols x) ws" and "l < length ws"
  shows "shape (spec_grad ws x y l) = shape (ws ! l)"
  using assms by (simp add: shape_def spec_grad_def spec_h_fits nrows_spec_g_Suc)

lemma shapes_spec_gradients:
  assumes "shapes_chain (ncols x) ws"
  shows "map shape (spec_gradients ws x y) = map shape ws"
  by (rule nth_equalityI) (simp_all add: spec_gradients_def shape_spec_grad [OF assms])

lemma back_step_spec:
  assumes chain: "shapes_chain (ncols x) ws" and k: "Suc k < length ws"
  shows "back_step ws (spec_activations ws x) (int (Suc k)) (spec_g ws x y (Suc (Suc k))) =
         Inr (spec_g ws x y (Suc k), raw_grad ws x y k)"
proof -
  let ?acts = "spec_activations ws x"
  let ?g = "spec_g ws x y (Suc (Suc k))"
  have w: "item ws (int (Suc k)) = Inr (ws ! Suc k)"
    using k by (intro item_nat)
  have w': "item ws (int (Suc k) - 1) = Inr (ws ! k)"
    using k item_nat [of k ws] by simp
  have a': "item ?acts (int (Suc k) - 1) = Inr (spec_h ws x k)"
    using k item_nat [of k ?acts] by (simp add: nth_spec_activations)
  have next_rows: "nrows ?g = ncols (ws ! Suc k)"
    by (rule nrows_spec_g_Suc [OF chain k])
  have d1: "dot (ws ! Suc k) ?g = Inr (matmul (ws ! Suc k) ?g)"
    using next_rows by (simp add: dot_compatible)
  have d2: "dot (spec_h ws x k) (ws ! k) = Inr (matmul (spec_h ws x k) (ws ! k))"
    using k chain by (simp add: dot_compatible spec_h_fits)
  have fit: "nrows (ws ! Suc k) = ncols (ws ! k)"
    using shapes_chain_nth [OF chain k] by simp
  have m: "multiply (T (matmul (ws ! Suc k) ?g))
             (map_matrix sig_func_g (matmul (spec_h ws x k) (ws ! k))) =
           Inr (hadamard (T (matmul (ws ! Suc k) ?g))
                  (map_matrix spec_sigmoid' (matmul (spec_h ws x k) (ws ! k))))"
    using fit by (simp add: multiply_same_shape sig_func_g_spec)
  have "spec_g ws x y (Suc k) =
          T (hadamard (T (matmul (ws ! Suc k) ?g))
               (map_matrix spec_sigmoid' (matmul (spec_h ws x k) (ws ! k))))"
    using k by (intro trans [OF spec_g.simps]) simp
  then have g: "T (hadamard (T (matmul (ws ! Suc k) ?g))
                  (map_matrix spec_sigmoid' (matmul (spec_h ws x k) (ws ! k)))) =
           spec_g ws x y (Suc k)"
    by simp
  have d3: "dot (spec_g ws x y (Suc k)) (spec_h ws x k) =
            Inr (matmul (spec_g ws x y (Suc k)) (spec_h ws x k))"
    by (simp add: dot_compatible)
  show ?thesis
    unfolding back_step_def w w' a' by (simp add: d1 d2 m g d3 raw_grad_def Let_def)
qed

lemma back_propagate_spec:
  assumes chain: "shapes_chain (ncols x) ws"
  shows "k < length ws \<Longrightarrow>
         back_propagate ws (spec_activations ws x) (int k) (spec_g ws x y (Suc k))
           (map (raw_grad ws x y) [k..<length ws]) =
         Inr (map (raw_grad ws x y) [0..<length ws])"
proof (induction k)
  case 0
  show ?case by (subst back_propagate.simps) simp
next
  case (Suc k)
  then have k: "k < length ws" by simp
  have grads: "raw_grad ws x y k # map (raw_grad ws x y) [Suc k..<length ws] =
               map (raw_grad ws x y) [k..<length ws]"
    using k by (simp add: upt_conv_Cons)
  have "back_propagate ws (spec_activations ws x) (int (Suc k)) (spec_g ws x y (Suc (Suc k)))
           (map (raw_grad ws x y) [Suc k..<length ws]) =
        back_propagate ws (spec_activations ws x) (int k) (spec_g ws x y (Suc k))
           (map (raw_grad ws x y) [k..<length ws])"
  proof -
    have down: "int (Suc k) - 1 = int k" by simp
    show ?thesis
      by (subst back_propagate.simps)
        (simp add: back_step_spec [OF chain Suc.prems] grads down del: of_nat_Suc)
  qed
  with Suc.IH [OF k] show ?case by simp
qed

lemma gradients_spec:
  assumes layers: "weights self \<noteq> []"
    and chain: "shapes_chain (ncols x) (weight_arrays h self)"
    and target: "shape y = (nrows x, ncols (last (weight_arrays h self)))"
  shows "gradients h self x y =
         Inr (spec_gradients (weight_arrays h self) x y,
              self\<lparr>activations := spec_activations (weight_arrays h self) x\<rparr>)"
proof -
  let ?ws = "weight_arrays h self"
  let ?acts = "spec_activations ?ws x"
  let ?self' = "self\<lparr>activations := ?acts\<rparr>"
  define k where "k = length ?ws - 1"
  have len: "length ?ws = Suc k" and lenw: "length (weights self) = Suc k"
    using layers by (simp_all add: k_def weight_arrays_def)
  have k: "k < length ?ws" using len by simp
  have ws': "weight_arrays h ?self' = ?ws"
    by (simp add: weight_arrays_def)
  have layer: "int (length (weights self)) - 1 = int k"
    using lenw by simp
  have p: "predict h self x = Inr (spec_forward ?ws x, ?self')"
    by (rule predict_chain [OF chain])
  have top: "spec_forward ?ws x = spec_h ?ws x (Suc k)"
    using len by (simp add: spec_h_def)
  have lastw: "last ?ws = ?ws ! k"
    using len by (metis diff_Suc_1 last_conv_nth length_0_conv nat.distinct(1))
  have ycols: "ncols y = ncols (?ws ! k)" and yrows: "nrows y = nrows x"
    using target lastw by (simp_all add: shape_def)
  have topcols: "ncols (spec_h ?ws x (Suc k)) = ncols (?ws ! k)"
    using len by (simp add: ncols_spec_h)
  have e: "subtract (spec_h ?ws x (Suc k)) y = Inr (mat_diff (spec_h ?ws x (Suc k)) y)"
    using ycols yrows topcols by (simp add: subtract_same_shape)
  have a: "item ?acts (int k) = Inr (spec_h ?ws x k)"
    using item_nat [of k ?acts] len by (simp add: nth_spec_activations)
  have w: "item ?ws (int k) = Inr (?ws ! k)"
    using k by (rule item_nat)
  have d1: "dot (spec_h ?ws x k) (?ws ! k) = Inr (matmul (spec_h ?ws x k) (?ws ! k))"
    using spec_h_fits [OF chain k] by (simp add: dot_compatible)
  have m: "multiply (mat_diff (spec_h ?ws x (Suc k)) y)
             (map_matrix sig_func_g (matmul (spec_h ?ws x k) (?ws ! k))) =
           Inr (hadamard (mat_diff (spec_h ?ws x (Suc k)) y)
                  (map_matrix spec_sigmoid' (matmul (spec_h ?ws x k) (?ws ! k))))"
    using topcols by (simp add: multiply_same_shape sig_func_g_spec)
  have "spec_g ?ws x y (Suc k) =
          T (hadamard (mat_diff (spec_h ?ws x (Suc k)) y)
               (map_matrix spec_sigmoid' (matmul (spec_h ?ws x k) (?ws ! k))))"
    using len by (intro trans [OF spec_g.simps]) simp
  then have g: "T (hadamard (mat_diff (spec_h ?ws x (Suc k)) y)
                  (map_matrix spec_sigmoid' (matmul (spec_h ?ws x k) (?ws ! k)))) =
           spec_g ?ws x y (Suc k)"
    by simp
  have d2: "dot (spec_g ?ws x y (Suc k)) (spec_h ?ws x k) =
            Inr (matmul (spec_g ?ws x y (Suc k)) (spec_h ?ws x k))"
    by (simp add: dot_compatible)
  have first: "[T (matmul (spec_g ?ws x y (Suc k)) (spec_h ?ws x k))] =
               map (raw_grad ?ws x y) [k..<length ?ws]"
    using len by (simp add: raw_grad_def)
  have loop: "back_propagate ?ws ?acts (int k) (spec_g ?ws x y (Suc k))
                [T (matmul (spec_g ?ws x y (Suc k)) (spec_h ?ws x k))] =
              Inr (map (raw_grad ?ws x y) [0..<length ?ws])"
    unfolding first by (rule back_propagate_spec [OF chain k])
  have scaled: "map (map_matrix (\<lambda>v. fdiv v (Fin (real (nrows x)))))
                  (map (raw_grad ?ws x y) [0..<length ?ws]) =
                spec_gradients ?ws x y"
    by (simp add: spec_gradients_def spec_grad_def raw_grad_def)
  show ?thesis
    unfolding gradients_def layer p
    by (simp add: top e a w ws' d1 m g d2 loop scaled Let_def del: upt_Suc map_map)
qed

lemma back_propagate_length:
  "back_propagate ws acts layer g_last grad = Inr grad' \<Longrightarrow>
   length grad' = length grad + nat layer"
proof (induction ws acts layer g_last grad rule: back_propagate.induct)
  case (1 ws acts layer g_last grad)
  show ?case
  proof (cases "layer \<ge> 1")
    case False
    with "1.prems" show ?thesis
      by (subst (asm) back_propagate.simps) simp
  next
    case True
    from "1.prems" True obtain g_last' gr where
      step: "back_step ws acts layer g_last = Inr (g_last', gr)" and
      rest: "back_propagate ws acts (layer - 1) g_last' (gr # grad) = Inr grad'"
      by (subst (asm) back_propagate.simps) (auto split: sum.splits)
    from "1.IH" [OF True step refl rest] True show ?thesis
      by simp
  qed
qed

lemma gradients_length:
  assumes "gradients h self x y = Inr (grads, self')"
  shows "length grads = length (weights self) \<and> weights self' = weights self \<and>
         weights self \<noteq> []"
proof -
  from assms obtain out e eg gh h_prev g_last grad' where
    p: "predict h self x = Inr (out, self')" and
    w: "item (weight_arrays h self') (int (length (weights self)) - 1) = Inr e" and
    loop: "back_propagate (weight_arrays h self') (activations self')
              (int (length (weights self)) - 1) g_last [gh] = Inr grad'" and
    grads: "grads = map (map_matrix (\<lambda>v. fdiv v (Fin (real (nrows x))))) grad'"
    unfolding gradients_def Let_def
    by (auto split: sum.splits prod.splits)
  have same: "weights self' = weights self"
    using p by (rule predict_weights)
  have ne: "weights self \<noteq> []"
  proof
    assume "weights self = []"
    with w same show False by (simp add: weight_arrays_def item_empty)
  qed
  from back_propagate_length [OF loop] ne have "length grad' = length (weights self)"
    by (cases "weights self") simp_all
  with grads same ne show ?thesis by simp
qed





lemma fdiv_positive: "0 < c \<Longrightarrow> fdiv (Fin r) (Fin c) = Fin (r / c)"
  by simp

section \<open>The training loop\<close>

lemma update_weights_spec_from:
  assumes "length grads = length ws"
  shows "k \<le> length ws \<Longrightarrow>
         update_weights lr (zip (drop k grads) (drop k ws)) h =
         foldl (\<lambda>r l. and_then r (\<lambda>h'. spec_assign lr grads ws h' l)) (Inr h) [k..<length ws]"
proof (induction "length ws - k" arbitrary: k h)
  case 0
  then show ?case using assms by simp
next
  case (Suc n)
  then have k: "k < length ws" by simp
  with assms have kg: "k < length grads" by simp
  have dg: "drop k grads = grads ! k # drop (Suc k) grads"
    using kg by (simp add: Cons_nth_drop_Suc)
  have dw: "drop k ws = ws ! k # drop (Suc k) ws"
    using k by (simp add: Cons_nth_drop_Suc)
  have range: "[k..<length ws] = k # [Suc k..<length ws]"
    using k by (simp add: upt_conv_Cons)
  show ?case
  proof (cases "isub (h ! (ws ! k)) (map_matrix (\<lambda>x. fmul lr x) (grads ! k))")
    case (Inl e)
    then show ?thesis
      unfolding dg dw range by (simp add: spec_assign_def)
  next
    case (Inr m)
    have "n = length ws - Suc k" using Suc.hyps(2) by simp
    from Suc.hyps(1) [OF this, of "h[ws ! k := m]"] k Inr show ?thesis
      unfolding dg dw range by (simp add: spec_assign_def)
  qed
qed

lemma update_weights_spec:
  "length grads = length ws \<Longrightarrow> update_weights lr (zip grads ws) h = spec_update lr grads ws h"
  using update_weights_spec_from [of grads ws 0 lr h] by (simp add: spec_update_def)

lemma train_loop_Suc_spec:
  "train_loop xa ya lr (Suc n) s = and_then (spec_step xa ya lr s) (train_loop xa ya lr n)"
proof (cases s)
  case (Pair h self)
  show ?thesis
  proof (cases "gradients h self (h ! xa) (h ! ya)")
    case (Inl e)
    then show ?thesis by (simp add: Pair spec_step_def)
  next
    case (Inr r)
    obtain grads self' where r: "r = (grads, self')" by (cases r)
    from gradients_length [OF Inr [unfolded r]]
    have "length grads = length (weights self')" by simp
    then have "update_weights lr (zip grads (weights self')) h =
               spec_update lr grads (weights self') h"
      by (rule update_weights_spec)
    then show ?thesis
      by (cases "spec_update lr grads (weights self') h") (simp_all add: Pair Inr r spec_step_def)
  qed
qed

lemma train_loop_0: "train_loop xa ya lr 0 s = Inr s"
  by (cases s) simp

lemma train_loop_spec_from:
  "and_then r (train_loop xa ya lr n) =
   ((\<lambda>r. and_then r (spec_step xa ya lr)) ^^ n) r"
proof (induction n arbitrary: r)
  case 0
  have "train_loop xa ya lr 0 = Inr" by (rule ext) (rule train_loop_0)
  then show ?case by simp
next
  case (Suc n)
  have "train_loop xa ya lr (Suc n) = (\<lambda>s. and_then (spec_step xa ya lr s) (train_loop xa ya lr n))"
    by (rule ext) (rule train_loop_Suc_spec)
  then have "and_then r (train_loop xa ya lr (Suc n)) =
             and_then (and_then r (spec_step xa ya lr)) (train_loop xa ya lr n)"
    by (simp add: and_then_assoc)
  also have "\<dots> = ((\<lambda>r. and_then r (spec_step xa ya lr)) ^^ n) (and_then r (spec_step xa ya lr))"
    by (rule Suc.IH)
  also have "\<dots> = ((\<lambda>r. and_then r (spec_step xa ya lr)) ^^ Suc n) r"
    using funpow_swap1 [of "\<lambda>r. and_then r (spec_step xa ya lr)" n r] by simp
  finally show ?case .
qed

lemma train_loop_spec: "train_loop xa ya lr n s = spec_train xa ya lr n s"
  using train_loop_spec_from [of "Inr s" xa ya lr n] by (simp add: spec_train_def)

lemma shape_nth_list_update:
  "shape m = shape (h ! w) \<Longrightarrow> shape (h[w := m] ! a) = shape (h ! a)"
  by (cases "w < length h") (auto simp: nth_list_update list_update_beyond)

lemma update_weights_frame:
  "update_weights lr zs h = Inr h' \<Longrightarrow>
   length h' = length h \<and> (\<forall>a. shape (h' ! a) = shape (h ! a)) \<and>
   (\<forall>a. a \<notin> snd ` set zs \<longrightarrow> h' ! a = h ! a)"
proof (induction zs arbitrary: h)
  case Nil
  then show ?case by simp
next
  case (Cons z zs)
  obtain grad w where z: "z = (grad, w)" by (cases z)
  from Cons.prems obtain m where
    m: "isub (h ! w) (map_matrix (\<lambda>x. fmul lr x) grad) = Inr m" and
    rest: "update_weights lr zs (h[w := m]) = Inr h'"
    by (auto simp: z split: sum.splits)
  from Cons.IH [OF rest] isub_shape [OF m] show ?case
    by (auto simp: z shape_nth_list_update)
qed

lemma train_loop_frame:
  "train_loop xa ya lr n (h, self) = Inr (h', self') \<Longrightarrow>
   weights self' = weights self \<and> length h' = length h \<and>
   (\<forall>a. shape (h' ! a) = shape (h ! a)) \<and>
   (\<forall>a. a \<notin> set (weights self) \<longrightarrow> h' ! a = h ! a)"
proof (induction n arbitrary: h self)
  case 0
  then show ?case by simp
next
  case (Suc n)
  from Suc.prems obtain grads self1 h1 where
    g: "gradients h self (h ! xa) (h ! ya) = Inr (grads, self1)" and
    u: "update_weights lr (zip grads (weights self1)) h = Inr h1" and
    rest: "train_loop xa ya lr n (h1, self1) = Inr (h', self')"
    by (auto split: sum.splits)
  from gradients_length [OF g] have same: "weights self1 = weights self" by simp
  have written: "a \<in> set (weights self)" if "a \<in> snd ` set (zip grads (weights self1))" for a
    using that unfolding same by (auto dest: set_zip_rightD)
  from update_weights_frame [OF u] have
    one: "length h1 = length h" "\<forall>a. shape (h1 ! a) = shape (h ! a)"
    and other: "\<forall>a. a \<notin> snd ` set (zip grads (weights self1)) \<longrightarrow> h1 ! a = h ! a"
    by simp_all
  from other written have two: "\<forall>a. a \<notin> set (weights self) \<longrightarrow> h1 ! a = h ! a"
    by blast
  from Suc.IH [OF rest] one two same show ?case by simp
qed

section \<open>The concrete network, evaluated\<close>

lemma heap4_nth:
  "heap4 ! 0 = Matrix 1 2 [[Fin 0, Fin 0]]" "heap4 ! Suc 0 = Matrix 2 1 [[Fin 1], [Fin (- 1)]]"
  "heap4 ! 2 = Matrix 1 1 [[Fin 1]]" "heap4 ! 3 = Matrix 1 1 [[Fin 0]]"
  by (simp_all add: heap4_def eval_nat_numeral)

lemma weight_arrays_net121:
  "weight_arrays heap4 net121 = [Matrix 1 2 [[Fin 0, Fin 0]], Matrix 2 1 [[Fin 1], [Fin (- 1)]]]"
  by (simp add: weight_arrays_def net121_def heap4_nth)

lemma predict_heap4:
  "predict heap4 net121 (Matrix 1 1 [[Fin 1]]) =
     Inr (Matrix 1 1 [[Fin (1 / 2)]],
          net121\<lparr>activations := [Matrix 1 1 [[Fin 1]], Matrix 1 2 [[Fin (1 / 2), Fin (1 / 2)]], Matrix 1 1 [[Fin (1 / 2)]]]\<rparr>)"
  by (simp add: predict_def weight_arrays_def net121_def heap4_nth init_def item_def dot_def matmul_def fsum_def
     mk_matrix_def map_matrix_def entry_def sig_func_0 eval_nat_numeral)

lemma predict_single_heap4:
  "predict heap4 (init [0]) (Matrix 1 1 [[Fin 1]]) =
     Inr (Matrix 1 2 [[Fin (1 / 2), Fin (1 / 2)]],
          init [0]\<lparr>activations := [Matrix 1 1 [[Fin 1]], Matrix 1 2 [[Fin (1 / 2), Fin (1 / 2)]]]\<rparr>)"
  by (simp add: predict_def weight_arrays_def heap4_nth init_def item_def dot_def matmul_def fsum_def
     mk_matrix_def map_matrix_def entry_def sig_func_0 eval_nat_numeral)

lemma predict_zero_one_heap4:
  "predict_zero_one heap4 (init [0]) (Matrix 1 1 [[Fin 1]]) =
     Inr (Matrix 1 2 [[1, 1]],
          init [0]\<lparr>activations := [Matrix 1 1 [[Fin 1]], Matrix 1 2 [[Fin (1 / 2), Fin (1 / 2)]]]\<rparr>)"
  unfolding predict_zero_one_def predict_single_heap4
  by (simp add: np_where_def map_matrix_def mk_matrix_def entry_def eval_nat_numeral)

lemma predict_one_PosInf:
  "predict [Matrix 1 1 [[Fin 1]]] (init [0]) (Matrix 1 1 [[PosInf]]) =
     Inr (Matrix 1 1 [[Fin 1]],
          init [0]\<lparr>activations := [Matrix 1 1 [[PosInf]], Matrix 1 1 [[Fin 1]]]\<rparr>)"
  by (simp add: predict_def weight_arrays_def init_def item_def dot_def matmul_def fsum_def
     signed_inf_def mk_matrix_def map_matrix_def entry_def sig_func_PosInf)

lemma predict_one_NegInf:
  "predict [Matrix 1 1 [[Fin 1]]] (init [0]) (Matrix 1 1 [[NegInf]]) =
     Inr (Matrix 1 1 [[Fin 0]],
          init [0]\<lparr>activations := [Matrix 1 1 [[NegInf]], Matrix 1 1 [[Fin 0]]]\<rparr>)"
  by (simp add: predict_def weight_arrays_def init_def item_def dot_def matmul_def fsum_def
     signed_inf_def mk_matrix_def map_matrix_def entry_def sig_func_NegInf)

lemma predict_one_NaN:
  "predict [Matrix 1 1 [[Fin 1]]] (init [0]) (Matrix 1 1 [[NaN]]) =
     Inr (Matrix 1 1 [[NaN]],
          init [0]\<lparr>activations := [Matrix 1 1 [[NaN]], Matrix 1 1 [[NaN]]]\<rparr>)"
  by (simp add: predict_def weight_arrays_def init_def item_def dot_def matmul_def fsum_def
     mk_matrix_def map_matrix_def entry_def sig_func_NaN)

lemma back_step_heap4:
  "back_step [Matrix 1 2 [[Fin 0, Fin 0]], Matrix 2 1 [[Fin 1], [Fin (- 1)]]]
     [Matrix 1 1 [[Fin 1]], Matrix 1 2 [[Fin (1 / 2), Fin (1 / 2)]], Matrix 1 1 [[Fin (1 / 2)]]] 1 (Matrix 1 1 [[Fin (1 / 8)]]) =
   Inr (Matrix 2 1 [[Fin (1 / 32)], [Fin (- 1 / 32)]], Matrix 1 2 [[Fin (1 / 32), Fin (- 1 / 32)]])"
  by (simp add: back_step_def item_def dot_def matmul_def fsum_def multiply_def elementwise_def
        broadcast_dim_def stretch_def T_def map_matrix_def mk_matrix_def entry_def
        sig_func_g_0 eval_nat_numeral)

lemma gradients_heap4:
  "gradients heap4 net121 (Matrix 1 1 [[Fin 1]]) (Matrix 1 1 [[Fin 0]]) =
     Inr ([Matrix 1 2 [[Fin (1 / 32), Fin (- 1 / 32)]], Matrix 2 1 [[Fin (1 / 16)], [Fin (1 / 16)]]],
          net121\<lparr>activations := [Matrix 1 1 [[Fin 1]], Matrix 1 2 [[Fin (1 / 2), Fin (1 / 2)]], Matrix 1 1 [[Fin (1 / 2)]]]\<rparr>)"
proof -
  have layer: "int (length (weights net121)) - 1 = 1"
    by (simp add: net121_def)
  have ws: "weight_arrays heap4
       (net121\<lparr>activations := [Matrix 1 1 [[Fin 1]], Matrix 1 2 [[Fin (1 / 2), Fin (1 / 2)]], Matrix 1 1 [[Fin (1 / 2)]]]\<rparr>) =
       [Matrix 1 2 [[Fin 0, Fin 0]], Matrix 2 1 [[Fin 1], [Fin (- 1)]]]"
    by (simp add: weight_arrays_def net121_def heap4_nth)
  have loop: "back_propagate [Matrix 1 2 [[Fin 0, Fin 0]], Matrix 2 1 [[Fin 1], [Fin (- 1)]]]
     [Matrix 1 1 [[Fin 1]], Matrix 1 2 [[Fin (1 / 2), Fin (1 / 2)]], Matrix 1 1 [[Fin (1 / 2)]]] 1 (Matrix 1 1 [[Fin (1 / 8)]])
     [Matrix 2 1 [[Fin (1 / 16)], [Fin (1 / 16)]]] =
     Inr [Matrix 1 2 [[Fin (1 / 32), Fin (- 1 / 32)]], Matrix 2 1 [[Fin (1 / 16)], [Fin (1 / 16)]]]"
    by (subst back_propagate.simps, simp add: back_step_heap4 del: One_nat_def,
        subst back_propagate.simps, simp)
  have top: "subtract (Matrix 1 1 [[Fin (1 / 2)]]) (Matrix 1 1 [[Fin 0]]) = Inr (Matrix 1 1 [[Fin (1 / 2)]])"
    by (simp add: subtract_def fsub_def elementwise_def broadcast_dim_def stretch_def mk_matrix_def
          entry_def)
  have a: "dot (Matrix 1 2 [[Fin (1 / 2), Fin (1 / 2)]]) (Matrix 2 1 [[Fin 1], [Fin (- 1)]]) = Inr (Matrix 1 1 [[Fin 0]])"
    by (simp add: dot_def matmul_def fsum_def mk_matrix_def entry_def eval_nat_numeral)
  have g: "multiply (Matrix 1 1 [[Fin (1 / 2)]]) (map_matrix sig_func_g (Matrix 1 1 [[Fin 0]])) =
           Inr (Matrix 1 1 [[Fin (1 / 8)]])"
    by (simp add: multiply_def elementwise_def broadcast_dim_def stretch_def map_matrix_def
          mk_matrix_def entry_def sig_func_g_0)
  have t1: "T (Matrix 1 1 [[Fin (1 / 8)]]) = Matrix 1 1 [[Fin (1 / 8)]]"
    by (simp add: T_def mk_matrix_def entry_def)
  have d: "dot (Matrix 1 1 [[Fin (1 / 8)]]) (Matrix 1 2 [[Fin (1 / 2), Fin (1 / 2)]]) = Inr (Matrix 1 2 [[Fin (1 / 16), Fin (1 / 16)]])"
    by (simp add: dot_def matmul_def fsum_def mk_matrix_def entry_def eval_nat_numeral)
  have t2: "T (Matrix 1 2 [[Fin (1 / 16), Fin (1 / 16)]]) = Matrix 2 1 [[Fin (1 / 16)], [Fin (1 / 16)]]"
    by (simp add: T_def mk_matrix_def entry_def eval_nat_numeral)
  have acts: "item [Matrix 1 1 [[Fin 1]], Matrix 1 2 [[Fin (1 / 2), Fin (1 / 2)]], Matrix 1 1 [[Fin (1 / 2)]]] 1 =
              Inr (Matrix 1 2 [[Fin (1 / 2), Fin (1 / 2)]])"
         "item [Matrix 1 2 [[Fin 0, Fin 0]], Matrix 2 1 [[Fin 1], [Fin (- 1)]]] 1 = Inr (Matrix 2 1 [[Fin 1], [Fin (- 1)]])"
    by (simp_all add: item_def)
  show ?thesis
    unfolding gradients_def layer predict_heap4
    by (simp add: ws top acts a g t1 d t2 loop Let_def del: One_nat_def)
      (simp add: map_matrix_def mk_matrix_def entry_def eval_nat_numeral)
qed

lemma update_weights_heap4:
  "update_weights (Fin 1) [(Matrix 1 2 [[Fin (1 / 32), Fin (- (1 / 32))]], 0), (Matrix 2 1 [[Fin (1 / 16)], [Fin (1 / 16)]], 1)] heap4 =
   Inr [Matrix 1 2 [[Fin (- 1 / 32), Fin (1 / 32)]], Matrix 2 1 [[Fin (15 / 16)], [Fin (- 17 / 16)]],
        Matrix 1 1 [[Fin 1]], Matrix 1 1 [[Fin 0]]]"
  by (simp add: heap4_def isub_def subtract_def fsub_def elementwise_def broadcast_dim_def
        stretch_def shape_def map_matrix_def mk_matrix_def entry_def eval_nat_numeral)

lemma train_heap4:
  "train heap4 net121 2 3 (Some 1) (Some (Fin 1)) =
   Inr ([Matrix 1 2 [[Fin (- 1 / 32), Fin (1 / 32)]], Matrix 2 1 [[Fin (15 / 16)], [Fin (- 17 / 16)]],
         Matrix 1 1 [[Fin 1]], Matrix 1 1 [[Fin 0]]],
        net121\<lparr>activations := [Matrix 1 1 [[Fin 1]], Matrix 1 2 [[Fin (1 / 2), Fin (1 / 2)]], Matrix 1 1 [[Fin (1 / 2)]]]\<rparr>)"
proof -
  have w: "weights (net121\<lparr>activations := [Matrix 1 1 [[Fin 1]], Matrix 1 2 [[Fin (1 / 2), Fin (1 / 2)]], Matrix 1 1 [[Fin (1 / 2)]]]\<rparr>) = [0, 1]"
    by (simp add: net121_def)
  have "train_loop 2 3 (Fin 1) (Suc 0) (heap4, net121) =
   Inr ([Matrix 1 2 [[Fin (- 1 / 32), Fin (1 / 32)]], Matrix 2 1 [[Fin (15 / 16)], [Fin (- 17 / 16)]],
         Matrix 1 1 [[Fin 1]], Matrix 1 1 [[Fin 0]]],
        net121\<lparr>activations := [Matrix 1 1 [[Fin 1]], Matrix 1 2 [[Fin (1 / 2), Fin (1 / 2)]], Matrix 1 1 [[Fin (1 / 2)]]]\<rparr>)"
    unfolding train_loop.simps heap4_nth gradients_heap4
    by (simp add: w update_weights_heap4 del: One_nat_def update_weights.simps)
  then show ?thesis by (simp add: train_def)
qed




section \<open>Forward propagation: the claims\<close>

text \<open>
  C2. When the shapes fit along the network, \<open>predict\<close> returns the result of iterating
  \<open>h_{l+1} = sigmoid(h_l \<times> w_l)\<close> from \<open>h_0 = X\<close> over the weight matrices in order, with
  \<open>sigmoid(x) = 1 / (1 + exp (- x))\<close> on every entry, and it caches all the \<open>h_l\<close>. For a
  network of a single weight matrix \<open>W\<close> that is \<open>sigmoid(X \<times> W)\<close>. On a finite number
  the sigmoid is the real one (\<open>sig_func_Fin\<close>).
\<close>

theorem predict_forward:
  assumes "shapes_chain (ncols x) (weight_arrays h self)"
  shows "predict h self x =
           Inr (spec_forward (weight_arrays h self) x,
                self\<lparr>activations := spec_activations (weight_arrays h self) x\<rparr>) \<and>
         (weights self = [a] \<longrightarrow>
            predict h self x =
              Inr (map_matrix (\<lambda>v. fdiv (Fin 1) (fadd (Fin 1) (np_exp (fneg v)))) (matmul x (h ! a)),
                   self\<lparr>activations :=
                     [x, map_matrix (\<lambda>v. fdiv (Fin 1) (fadd (Fin 1) (np_exp (fneg v)))) (matmul x (h ! a))]\<rparr>))"
proof -
  have whole: "predict h self x =
           Inr (spec_forward (weight_arrays h self) x,
                self\<lparr>activations := spec_activations (weight_arrays h self) x\<rparr>)"
    by (rule predict_chain [OF assms])
  have "weights self = [a] \<Longrightarrow> spec_forward (weight_arrays h self) x =
          map_matrix (\<lambda>v. fdiv (Fin 1) (fadd (Fin 1) (np_exp (fneg v)))) (matmul x (h ! a))"
    by (simp add: weight_arrays_def spec_forward_def spec_layer_def)
  moreover have "weights self = [a] \<Longrightarrow> spec_activations (weight_arrays h self) x =
          [x, map_matrix (\<lambda>v. fdiv (Fin 1) (fadd (Fin 1) (np_exp (fneg v)))) (matmul x (h ! a))]"
    by (simp add: weight_arrays_def spec_activations_def spec_h_def spec_forward_def spec_layer_def)
  ultimately show ?thesis using whole by simp
qed

theorem predict_forward_witness:
  "shapes_chain (ncols (Matrix 1 1 [[Fin 1]])) (weight_arrays heap4 net121) \<and>
   predict heap4 net121 (Matrix 1 1 [[Fin 1]]) =
     Inr (spec_forward (weight_arrays heap4 net121) (Matrix 1 1 [[Fin 1]]),
          net121\<lparr>activations := spec_activations (weight_arrays heap4 net121) (Matrix 1 1 [[Fin 1]])\<rparr>) \<and>
   shapes_chain (ncols (Matrix 1 1 [[Fin 1]])) (weight_arrays heap4 (init [0])) \<and>
   weights (init [0]) = [0] \<and>
   predict heap4 (init [0]) (Matrix 1 1 [[Fin 1]]) =
     Inr (map_matrix (\<lambda>v. fdiv (Fin 1) (fadd (Fin 1) (np_exp (fneg v)))) (matmul (Matrix 1 1 [[Fin 1]]) (heap4 ! 0)),
          init [0]\<lparr>activations := [Matrix 1 1 [[Fin 1]],
             map_matrix (\<lambda>v. fdiv (Fin 1) (fadd (Fin 1) (np_exp (fneg v)))) (matmul (Matrix 1 1 [[Fin 1]]) (heap4 ! 0))]\<rparr>)"
proof -
  have two: "shapes_chain (ncols (Matrix 1 1 [[Fin 1]])) (weight_arrays heap4 net121)"
    by (simp add: weight_arrays_def net121_def heap4_nth)
  have one: "shapes_chain (ncols (Matrix 1 1 [[Fin 1]])) (weight_arrays heap4 (init [0]))"
    by (simp add: weight_arrays_def heap4_nth)
  have single: "weights (init [0]) = [0]"
    by simp
  from predict_forward [OF two] predict_forward [OF one, of 0] two one single
  show ?thesis by blast
qed

text \<open>
  C4, amended. In a network of at least one weight matrix, every entry of the matrix that
  \<open>predict\<close> returns is the sigmoid of some float: it is nan or lies between 0 and 1, the
  bounds included. The counterexample shows the ways out of the open interval: a network
  without weights returns its input, an infinite weighted sum gives exactly 1 or exactly 0,
  and a nan in the input comes out as nan.
\<close>

theorem predict_unit_interval:
  assumes "weights self \<noteq> []" and "predict h self x = Inr (out, self')"
    and "i < nrows out" and "j < ncols out"
  shows "entry out i j = NaN \<or> (fle (Fin 0) (entry out i j) \<and> fle (entry out i j) (Fin 1))"
proof -
  from predict_cases [OF assms(2)] obtain acts where
    loop: "predict_loop (weight_arrays h self) [x] = Inr acts" and out: "out = last acts"
    by blast
  from assms(1) have "weight_arrays h self \<noteq> []" by (simp add: weight_arrays_def)
  from predict_loop_last [OF loop this] obtain z where z: "out = map_matrix sig_func z"
    using out by auto
  with assms(3,4) have "entry out i j = sig_func (entry z i j)"
    by simp
  with sig_func_range [of "entry z i j"] show ?thesis
    by auto
qed

theorem predict_unit_interval_witness:
  "weights (init [0]) \<noteq> [] \<and>
   predict heap4 (init [0]) (Matrix 1 1 [[Fin 1]]) =
     Inr (Matrix 1 2 [[Fin (1 / 2), Fin (1 / 2)]],
          init [0]\<lparr>activations :=
            [Matrix 1 1 [[Fin 1]], Matrix 1 2 [[Fin (1 / 2), Fin (1 / 2)]]]\<rparr>) \<and>
   0 < nrows (Matrix 1 2 [[Fin (1 / 2), Fin (1 / 2)]]) \<and>
   1 < ncols (Matrix 1 2 [[Fin (1 / 2), Fin (1 / 2)]]) \<and>
   (entry (Matrix 1 2 [[Fin (1 / 2), Fin (1 / 2)]]) 0 1 = NaN \<or>
    fle (Fin 0) (entry (Matrix 1 2 [[Fin (1 / 2), Fin (1 / 2)]]) 0 1) \<and>
    fle (entry (Matrix 1 2 [[Fin (1 / 2), Fin (1 / 2)]]) 0 1) (Fin 1))"
proof -
  have ne: "weights (init [0]) \<noteq> []" by simp
  have r: "0 < nrows (Matrix 1 2 [[Fin (1 / 2), Fin (1 / 2)]])" by simp
  have c: "1 < ncols (Matrix 1 2 [[Fin (1 / 2), Fin (1 / 2)]])" by simp
  from predict_unit_interval [OF ne predict_single_heap4 r c] ne predict_single_heap4 r c
  show ?thesis by blast
qed

theorem predict_unit_interval_counterexample:
  "predict [] (init []) (Matrix 1 1 [[Fin 2]]) =
     Inr (Matrix 1 1 [[Fin 2]], \<lparr>weights = [], activations = [Matrix 1 1 [[Fin 2]]]\<rparr>) \<and>
   \<not> flt (entry (Matrix 1 1 [[Fin 2]]) 0 0) (Fin 1) \<and>
   predict [Matrix 1 1 [[Fin 1]]] (init [0]) (Matrix 1 1 [[PosInf]]) =
     Inr (Matrix 1 1 [[Fin 1]],
          \<lparr>weights = [0], activations = [Matrix 1 1 [[PosInf]], Matrix 1 1 [[Fin 1]]]\<rparr>) \<and>
   \<not> flt (entry (Matrix 1 1 [[Fin 1]]) 0 0) (Fin 1) \<and>
   predict [Matrix 1 1 [[Fin 1]]] (init [0]) (Matrix 1 1 [[NegInf]]) =
     Inr (Matrix 1 1 [[Fin 0]],
          \<lparr>weights = [0], activations = [Matrix 1 1 [[NegInf]], Matrix 1 1 [[Fin 0]]]\<rparr>) \<and>
   \<not> flt (Fin 0) (entry (Matrix 1 1 [[Fin 0]]) 0 0) \<and>
   predict [Matrix 1 1 [[Fin 1]]] (init [0]) (Matrix 1 1 [[NaN]]) =
     Inr (Matrix 1 1 [[NaN]],
          \<lparr>weights = [0], activations = [Matrix 1 1 [[NaN]], Matrix 1 1 [[NaN]]]\<rparr>) \<and>
   \<not> flt (entry (Matrix 1 1 [[NaN]]) 0 0) (Fin 1)"
  using predict_one_PosInf predict_one_NegInf predict_one_NaN
  by (simp add: predict_no_weights init_def entry_def)

text \<open>
  C6, amended. Whenever \<open>predict\<close> returns a matrix, \<open>predict_zero_one\<close> returns a matrix of
  the same shape whose entries are 0 or 1. An entry is 0 exactly when the entry of
  \<open>predict\<close> at the same place is less than 0.5, and 1 otherwise: that is when that entry is
  at least 0.5, or is nan, for which both comparisons are false.
\<close>

theorem predict_zero_one_threshold:
  assumes "predict h self x = Inr (p, self')"
  shows "\<exists>z. predict_zero_one h self x = Inr (z, self') \<and> wf_matrix z \<and> shape z = shape p \<and>
           (\<forall>i<nrows p. \<forall>j<ncols p.
              (entry z i j = 0 \<or> entry z i j = 1) \<and>
              (entry z i j = 0 \<longleftrightarrow> flt (entry p i j) (Fin (1 / 2))) \<and>
              (entry z i j = 1 \<longleftrightarrow> fle (Fin (1 / 2)) (entry p i j) \<or> entry p i j = NaN))"
  using assms
  by (auto simp: predict_zero_one_def np_where_def shape_def map_matrix_def
        not_flt_iff [symmetric])

theorem predict_zero_one_threshold_witness:
  "predict heap4 (init [0]) (Matrix 1 1 [[Fin 1]]) =
     Inr (Matrix 1 2 [[Fin (1 / 2), Fin (1 / 2)]],
          init [0]\<lparr>activations :=
            [Matrix 1 1 [[Fin 1]], Matrix 1 2 [[Fin (1 / 2), Fin (1 / 2)]]]\<rparr>) \<and>
   predict_zero_one heap4 (init [0]) (Matrix 1 1 [[Fin 1]]) =
     Inr (Matrix 1 2 [[1, 1]],
          init [0]\<lparr>activations :=
            [Matrix 1 1 [[Fin 1]], Matrix 1 2 [[Fin (1 / 2), Fin (1 / 2)]]]\<rparr>) \<and>
   shape (Matrix 1 2 [[1, 1 :: int]]) = shape (Matrix 1 2 [[Fin (1 / 2), Fin (1 / 2)]]) \<and>
   entry (Matrix 1 2 [[1, 1 :: int]]) 0 1 = 1 \<and>
   fle (Fin (1 / 2)) (entry (Matrix 1 2 [[Fin (1 / 2), Fin (1 / 2)]]) 0 1)"
proof -
  let ?p = "Matrix 1 2 [[Fin (1 / 2), Fin (1 / 2)]]"
  from predict_zero_one_threshold [OF predict_single_heap4]
  obtain z where z: "predict_zero_one heap4 (init [0]) (Matrix 1 1 [[Fin 1]]) =
      Inr (z, init [0]\<lparr>activations := [Matrix 1 1 [[Fin 1]], ?p]\<rparr>)"
    and sh: "shape z = shape ?p"
    and en: "\<forall>i<nrows ?p. \<forall>j<ncols ?p.
              (entry z i j = 0 \<or> entry z i j = 1) \<and>
              (entry z i j = 0 \<longleftrightarrow> flt (entry ?p i j) (Fin (1 / 2))) \<and>
              (entry z i j = 1 \<longleftrightarrow> fle (Fin (1 / 2)) (entry ?p i j) \<or> entry ?p i j = NaN)"
    by blast
  from z [unfolded predict_zero_one_heap4] have zval: "z = Matrix 1 2 [[1, 1]]"
    by simp
  have half: "fle (Fin (1 / 2)) (entry ?p 0 1)"
    by (simp add: entry_def)
  have "(0::nat) < nrows ?p" "(1::nat) < ncols ?p"
    by simp_all
  with en half have "entry z 0 1 = 1"
    by blast
  with z sh zval half predict_single_heap4 show ?thesis by simp
qed

theorem predict_zero_one_threshold_counterexample:
  "predict [Matrix 1 1 [[Fin 1]]] (init [0]) (Matrix 1 1 [[NaN]]) =
     Inr (Matrix 1 1 [[NaN]],
          \<lparr>weights = [0], activations = [Matrix 1 1 [[NaN]], Matrix 1 1 [[NaN]]]\<rparr>) \<and>
   predict_zero_one [Matrix 1 1 [[Fin 1]]] (init [0]) (Matrix 1 1 [[NaN]]) =
     Inr (Matrix 1 1 [[1]],
          \<lparr>weights = [0], activations = [Matrix 1 1 [[NaN]], Matrix 1 1 [[NaN]]]\<rparr>) \<and>
   entry (Matrix 1 1 [[1 :: int]]) 0 0 = 1 \<and>
   \<not> fle (Fin (1 / 2)) (entry (Matrix 1 1 [[NaN]]) 0 0)"
  unfolding predict_zero_one_def predict_one_NaN
  by (simp add: np_where_def map_matrix_def mk_matrix_def entry_def)

text \<open>
  C9. A second call of \<open>predict\<close> on the same input, with the weight arrays holding what
  they held at the first call, returns the same matrix (and leaves the same cache). Other
  arrays of the heap may have changed in between, and the first call has overwritten the
  cache.
\<close>

theorem predict_twice:
  assumes "predict h self x = Inr (out, self')"
    and "weight_arrays h' self = weight_arrays h self"
  shows "predict h' self' x = Inr (out, self')"
proof -
  from predict_cases [OF assms(1)] obtain acts where
    loop: "predict_loop (weight_arrays h self) [x] = Inr acts" and
    self': "self' = self\<lparr>activations := acts\<rparr>"
    by blast
  from assms(2) have "weight_arrays h' self' = weight_arrays h self"
    by (simp add: weight_arrays_def self')
  with assms(1) show ?thesis
    by (auto simp: predict_def self' split: sum.splits)
qed

theorem predict_twice_witness:
  "predict heap4 net121 (Matrix 1 1 [[Fin 1]]) =
     Inr (Matrix 1 1 [[Fin (1 / 2)]],
          net121\<lparr>activations := [Matrix 1 1 [[Fin 1]], Matrix 1 2 [[Fin (1 / 2), Fin (1 / 2)]], Matrix 1 1 [[Fin (1 / 2)]]]\<rparr>) \<and>
   weight_arrays (heap4[3 := Matrix 1 1 [[Fin 9]]]) net121 = weight_arrays heap4 net121 \<and>
   predict (heap4[3 := Matrix 1 1 [[Fin 9]]])
     (net121\<lparr>activations := [Matrix 1 1 [[Fin 1]], Matrix 1 2 [[Fin (1 / 2), Fin (1 / 2)]], Matrix 1 1 [[Fin (1 / 2)]]]\<rparr>)
     (Matrix 1 1 [[Fin 1]]) =
     Inr (Matrix 1 1 [[Fin (1 / 2)]],
          net121\<lparr>activations := [Matrix 1 1 [[Fin 1]], Matrix 1 2 [[Fin (1 / 2), Fin (1 / 2)]], Matrix 1 1 [[Fin (1 / 2)]]]\<rparr>)"
proof -
  have same: "weight_arrays (heap4[3 := Matrix 1 1 [[Fin 9]]]) net121 = weight_arrays heap4 net121"
    by (simp add: weight_arrays_def net121_def)
  from predict_twice [OF predict_heap4 same] predict_heap4 same show ?thesis by blast
qed

text \<open>
  C10. A network without weight matrices returns its input unchanged from \<open>predict\<close>;
  such a network is what the constructor builds from no arguments and what \<open>random\<close>
  builds from fewer than two layer sizes. The witness has the entry 5 in the output.
\<close>

theorem predict_without_weights:
  "(weights self = [] \<longrightarrow> predict h self x = Inr (x, self\<lparr>activations := [x]\<rparr>)) \<and>
   predict h (init []) x = Inr (x, init []\<lparr>activations := [x]\<rparr>) \<and>
   (length layer_units < 2 \<longrightarrow>
      random h g layer_units = Inr (init [], h, g) \<and>
      predict h (init []) x = Inr (x, init []\<lparr>activations := [x]\<rparr>))"
  by (simp add: predict_no_weights random_short)

theorem predict_without_weights_witness:
  "weights (init []) = [] \<and>
   predict heap4 (init []) (Matrix 1 1 [[Fin 5]]) = Inr (Matrix 1 1 [[Fin 5]], init []\<lparr>activations := [Matrix 1 1 [[Fin 5]]]\<rparr>) \<and>
   length [3 :: int] < 2 \<and>
   random heap4 rng0 [3] = Inr (init [], heap4, rng0) \<and>
   \<not> flt (entry (Matrix 1 1 [[Fin 5]]) 0 0) (Fin 1)"
proof -
  have a: "weights (init []) = []" by simp
  have b: "length [3 :: int] < 2" by simp
  have c: "\<not> flt (entry (Matrix 1 1 [[Fin 5]]) 0 0) (Fin 1)" by (simp add: entry_def)
  from predict_without_weights [of "init []" heap4 "Matrix 1 1 [[Fin 5]]" "[3]" rng0] a b c
  show ?thesis by blast
qed

section \<open>Random construction: the claim\<close>

text \<open>
  C5, amended. Given fewer than two layer sizes, \<open>random\<close> raises nothing: there is no
  pair of consecutive sizes, so it returns a network without weight matrices, and neither
  the heap nor the generator has changed.
\<close>

theorem random_short_units:
  assumes "length layer_units < 2"
  shows "random h g layer_units = Inr (init [], h, g)"
  using assms by (rule random_short)

theorem random_short_units_witness:
  "length [7 :: int] < 2 \<and> random [] rng0 [7] = Inr (init [], [], rng0) \<and>
   length ([] :: int list) < 2 \<and> random [] rng0 [] = Inr (init [], [], rng0)"
proof -
  have a: "length [7 :: int] < 2" and b: "length ([] :: int list) < 2" by simp_all
  from random_short_units [OF a] random_short_units [OF b] a b show ?thesis by blast
qed

theorem random_short_units_counterexample:
  "random [] rng0 [7] = Inr (\<lparr>weights = [], activations = []\<rparr>, [], rng0)"
  by (simp add: random_def init_def)

section \<open>Back-propagation: the claims\<close>

text \<open>
  C1. For a network of at least one weight matrix, an input of at least one row, shapes
  that fit along the network and a target of the shape of the output, \<open>gradients\<close>
  returns the matrices of the specification's procedure: with \<open>g_L\<close> from
  \<open>error_L = h_L - y\<close> and \<open>g_l\<close> from \<open>error_l = (w_l \<times> g_{l+1})\<^sup>t\<close> for the layers below,
  the entry \<open>l\<close> of the result is \<open>grad_l = (g_{l+1} \<times> h_l)\<^sup>t / N\<close>. There is one gradient
  per weight matrix, in the order of the weights and of their shapes.
\<close>

theorem gradients_backpropagation:
  assumes "weights self \<noteq> []" and "1 \<le> nrows x"
    and "shapes_chain (ncols x) (weight_arrays h self)"
    and "shape y = (nrows x, ncols (last (weight_arrays h self)))"
  shows "gradients h self x y =
           Inr (spec_gradients (weight_arrays h self) x y,
                self\<lparr>activations := spec_activations (weight_arrays h self) x\<rparr>) \<and>
         length (spec_gradients (weight_arrays h self) x y) = length (weights self) \<and>
         map shape (spec_gradients (weight_arrays h self) x y) = map shape (weight_arrays h self)"
  using gradients_spec [OF assms(1,3,4)] shapes_spec_gradients [OF assms(3)]
  by (simp add: spec_gradients_def weight_arrays_def)

theorem gradients_backpropagation_witness:
  "weights net121 \<noteq> [] \<and> 1 \<le> nrows (Matrix 1 1 [[Fin 1]]) \<and>
   shapes_chain (ncols (Matrix 1 1 [[Fin 1]])) (weight_arrays heap4 net121) \<and>
   shape (Matrix 1 1 [[Fin 0]]) =
     (nrows (Matrix 1 1 [[Fin 1]]), ncols (last (weight_arrays heap4 net121))) \<and>
   gradients heap4 net121 (Matrix 1 1 [[Fin 1]]) (Matrix 1 1 [[Fin 0]]) =
     Inr (spec_gradients (weight_arrays heap4 net121) (Matrix 1 1 [[Fin 1]]) (Matrix 1 1 [[Fin 0]]),
          net121\<lparr>activations :=
            spec_activations (weight_arrays heap4 net121) (Matrix 1 1 [[Fin 1]])\<rparr>) \<and>
   gradients heap4 net121 (Matrix 1 1 [[Fin 1]]) (Matrix 1 1 [[Fin 0]]) =
     Inr ([Matrix 1 2 [[Fin (1 / 32), Fin (- 1 / 32)]], Matrix 2 1 [[Fin (1 / 16)], [Fin (1 / 16)]]],
          net121\<lparr>activations :=
            [Matrix 1 1 [[Fin 1]], Matrix 1 2 [[Fin (1 / 2), Fin (1 / 2)]], Matrix 1 1 [[Fin (1 / 2)]]]\<rparr>)"
proof -
  have layers: "weights net121 \<noteq> []"
    by (simp add: net121_def)
  have batch: "1 \<le> nrows (Matrix 1 1 [[Fin 1]])"
    by simp
  have chain: "shapes_chain (ncols (Matrix 1 1 [[Fin 1]])) (weight_arrays heap4 net121)"
    by (simp add: weight_arrays_net121)
  have target: "shape (Matrix 1 1 [[Fin 0]]) =
     (nrows (Matrix 1 1 [[Fin 1]]), ncols (last (weight_arrays heap4 net121)))"
    by (simp add: weight_arrays_net121 shape_def)
  from gradients_backpropagation [OF layers batch chain target] gradients_heap4
    layers batch chain target
  show ?thesis by blast
qed



section \<open>Training: the claims\<close>

text \<open>
  C3. \<open>train\<close> with \<open>iterations\<close> and \<open>learning_rate\<close> is that many repetitions, one
  after the other, of the specification's step: compute the gradients, then replace every
  \<open>w_l\<close> by \<open>w_l - learning_rate * grad_l\<close>; an exception ends it. For \<open>iterations \<le> 0\<close>
  nothing changes. The replacement is in place: when \<open>train\<close> returns, the network holds
  the references it held, no array has been added and no array other than the weights has
  been written. The defaults are 10 iterations and the learning rate 0.1.
\<close>

theorem train_repeats:
  "train h self xa ya (Some iterations) (Some learning_rate) =
     spec_train xa ya learning_rate (nat iterations) (h, self) \<and>
   (iterations \<le> 0 \<longrightarrow>
      train h self xa ya (Some iterations) (Some learning_rate) = Inr (h, self)) \<and>
   (train h self xa ya (Some iterations) (Some learning_rate) = Inr (h', self') \<longrightarrow>
      weights self' = weights self \<and> length h' = length h \<and>
      (\<forall>a. a \<notin> set (weights self) \<longrightarrow> h' ! a = h ! a)) \<and>
   train h self xa ya None None = train h self xa ya (Some 10) (Some (Fin (1 / 10))) \<and>
   train h self xa ya (Some iterations) None =
     train h self xa ya (Some iterations) (Some (Fin (1 / 10))) \<and>
   train h self xa ya None (Some learning_rate) =
     train h self xa ya (Some 10) (Some learning_rate)"
proof -
  have "iterations \<le> 0 \<Longrightarrow> nat iterations = 0" by simp
  then show ?thesis
    using train_loop_frame [of xa ya learning_rate "nat iterations" h self h' self']
    by (simp add: train_def train_loop_spec)
      (simp add: spec_train_def)
qed

theorem train_repeats_witness:
  "(- 3 :: int) \<le> 0 \<and>
   train heap4 net121 2 3 (Some (- 3)) (Some (Fin 1)) = Inr (heap4, net121) \<and>
   train heap4 net121 2 3 (Some 1) (Some (Fin 1)) = spec_train 2 3 (Fin 1) (nat 1) (heap4, net121) \<and>
   train heap4 net121 2 3 (Some 1) (Some (Fin 1)) =
     Inr ([Matrix 1 2 [[Fin (- 1 / 32), Fin (1 / 32)]], Matrix 2 1 [[Fin (15 / 16)], [Fin (- 17 / 16)]],
           Matrix 1 1 [[Fin 1]], Matrix 1 1 [[Fin 0]]],
          net121\<lparr>activations :=
            [Matrix 1 1 [[Fin 1]], Matrix 1 2 [[Fin (1 / 2), Fin (1 / 2)]], Matrix 1 1 [[Fin (1 / 2)]]]\<rparr>) \<and>
   weights (net121\<lparr>activations :=
            [Matrix 1 1 [[Fin 1]], Matrix 1 2 [[Fin (1 / 2), Fin (1 / 2)]], Matrix 1 1 [[Fin (1 / 2)]]]\<rparr>) =
     weights net121 \<and>
   length [Matrix 1 2 [[Fin (- 1 / 32), Fin (1 / 32)]], Matrix 2 1 [[Fin (15 / 16)], [Fin (- 17 / 16)]],
           Matrix 1 1 [[Fin 1]], Matrix 1 1 [[Fin 0]]] = length heap4 \<and>
   2 \<notin> set (weights net121) \<and>
   [Matrix 1 2 [[Fin (- 1 / 32), Fin (1 / 32)]], Matrix 2 1 [[Fin (15 / 16)], [Fin (- 17 / 16)]],
           Matrix 1 1 [[Fin 1]], Matrix 1 1 [[Fin 0]]] ! 2 = heap4 ! 2"
proof -
  have none: "(- 3 :: int) \<le> 0" by simp
  have input: "2 \<notin> set (weights net121)" by (simp add: net121_def)
  from train_repeats [of heap4 net121 2 3 "- 3" "Fin 1"] none
  have skipped: "train heap4 net121 2 3 (Some (- 3)) (Some (Fin 1)) = Inr (heap4, net121)"
    by blast
  from train_repeats [of heap4 net121 2 3 1 "Fin 1"
      "[Matrix 1 2 [[Fin (- 1 / 32), Fin (1 / 32)]], Matrix 2 1 [[Fin (15 / 16)], [Fin (- 17 / 16)]],
        Matrix 1 1 [[Fin 1]], Matrix 1 1 [[Fin 0]]]"
      "net121\<lparr>activations :=
            [Matrix 1 1 [[Fin 1]], Matrix 1 2 [[Fin (1 / 2), Fin (1 / 2)]], Matrix 1 1 [[Fin (1 / 2)]]]\<rparr>"]
    train_heap4 none skipped input
  show ?thesis by blast
qed

text \<open>
  C7. When \<open>train\<close> returns, after any number of iterations on any batch, the network holds
  the same weight arrays, as many as before, and each has the shape it had.
\<close>

theorem train_keeps_shapes:
  assumes "train h self xa ya iterations learning_rate = Inr (h', self')"
  shows "weights self' = weights self \<and>
         length (weight_arrays h' self') = length (weight_arrays h self) \<and>
         map shape (weight_arrays h' self') = map shape (weight_arrays h self)"
proof -
  from assms obtain n lr where "train_loop xa ya lr n (h, self) = Inr (h', self')"
    by (auto simp: train_def)
  from train_loop_frame [OF this] show ?thesis
    by (simp add: weight_arrays_def)
qed

theorem train_keeps_shapes_witness:
  "train heap4 net121 2 3 (Some 1) (Some (Fin 1)) =
     Inr ([Matrix 1 2 [[Fin (- 1 / 32), Fin (1 / 32)]], Matrix 2 1 [[Fin (15 / 16)], [Fin (- 17 / 16)]],
           Matrix 1 1 [[Fin 1]], Matrix 1 1 [[Fin 0]]],
          net121\<lparr>activations :=
            [Matrix 1 1 [[Fin 1]], Matrix 1 2 [[Fin (1 / 2), Fin (1 / 2)]], Matrix 1 1 [[Fin (1 / 2)]]]\<rparr>) \<and>
   map shape (weight_arrays
       [Matrix 1 2 [[Fin (- 1 / 32), Fin (1 / 32)]], Matrix 2 1 [[Fin (15 / 16)], [Fin (- 17 / 16)]],
        Matrix 1 1 [[Fin 1]], Matrix 1 1 [[Fin 0]]]
       (net121\<lparr>activations :=
            [Matrix 1 1 [[Fin 1]], Matrix 1 2 [[Fin (1 / 2), Fin (1 / 2)]], Matrix 1 1 [[Fin (1 / 2)]]]\<rparr>)) =
     map shape (weight_arrays heap4 net121) \<and>
   map shape (weight_arrays heap4 net121) = [(1, 2), (2, 1)]"
proof -
  have shapes: "map shape (weight_arrays heap4 net121) = [(1, 2), (2, 1)]"
    by (simp add: weight_arrays_net121 shape_def)
  from train_keeps_shapes [OF train_heap4] train_heap4 shapes show ?thesis by blast
qed

end
